theory Spec2Isabelle
  imports Complex_Main "HOL-Library.Char_ord" "HOL-Library.List_Lexorder"
begin

section \<open>Errors\<close>

text \<open>
  Exceptions are values: a function that can throw returns \<open>js_error + 'a\<close>, with
  \<open>Inl\<close> for the exception that leaves it.
\<close>

datatype js_error =
    RangeError
  | TypeError
  | MissingApiKey
  | GroqFailed nat string

section \<open>JavaScript string primitives\<close>

text \<open>
  Strings are lists of characters, each character a code unit below 256 read as in
  Latin-1. \<^verbatim>\<open>String.prototype.toLowerCase\<close> maps the letters A to Z and the capital
  letters from U+00C0 to U+00DE (the multiplication sign U+00D7 apart) to the letter 32
  places further on and leaves every other such character as it is.
  \<^verbatim>\<open>String.prototype.trim\<close> and the class \<^verbatim>\<open>\s\<close> take as white space tab, line
  feed, vertical tab, form feed, carriage return, space and the no-break space U+00A0.
\<close>

definition toLowerChar :: "char \<Rightarrow> char" where
  "toLowerChar c =
     (case map_of
        (zip (''ABCDEFGHIJKLMNOPQRSTUVWXYZ'' @
          [CHR 0xC0, CHR 0xC1, CHR 0xC2, CHR 0xC3, CHR 0xC4, CHR 0xC5, CHR 0xC6, CHR 0xC7,
           CHR 0xC8, CHR 0xC9, CHR 0xCA, CHR 0xCB, CHR 0xCC, CHR 0xCD, CHR 0xCE, CHR 0xCF,
           CHR 0xD0, CHR 0xD1, CHR 0xD2, CHR 0xD3, CHR 0xD4, CHR 0xD5, CHR 0xD6, CHR 0xD8,
           CHR 0xD9, CHR 0xDA, CHR 0xDB, CHR 0xDC, CHR 0xDD, CHR 0xDE])
          (''abcdefghijklmnopqrstuvwxyz'' @
          [CHR 0xE0, CHR 0xE1, CHR 0xE2, CHR 0xE3, CHR 0xE4, CHR 0xE5, CHR 0xE6, CHR 0xE7,
           CHR 0xE8, CHR 0xE9, CHR 0xEA, CHR 0xEB, CHR 0xEC, CHR 0xED, CHR 0xEE, CHR 0xEF,
           CHR 0xF0, CHR 0xF1, CHR 0xF2, CHR 0xF3, CHR 0xF4, CHR 0xF5, CHR 0xF6, CHR 0xF8,
           CHR 0xF9, CHR 0xFA, CHR 0xFB, CHR 0xFC, CHR 0xFD, CHR 0xFE])) c of
        Some l \<Rightarrow> l
      | None \<Rightarrow> c)"

definition toLowerCase :: "string \<Rightarrow> string" where
  "toLowerCase s = map toLowerChar s"

definition isSpace :: "char \<Rightarrow> bool" where
  "isSpace c =
     (c \<in> set [CHR 0x09, CHR 0x0A, CHR 0x0B, CHR 0x0C, CHR 0x0D, CHR '' '', CHR 0xA0])"

definition trim :: "string \<Rightarrow> string" where
  "trim s = rev (dropWhile isSpace (rev (dropWhile isSpace s)))"

text \<open>\<^verbatim>\<open>text.includes(keyword)\<close>: the keyword occurs as a contiguous substring.\<close>

fun includesStr :: "string \<Rightarrow> string \<Rightarrow> bool" where
  "includesStr [] k = (k = [])"
| "includesStr (c # cs) k = (take (length k) (c # cs) = k \<or> includesStr cs k)"

section \<open>Content gatherer (content-gatherer.js)\<close>

subsection \<open>Articles and feed documents\<close>

text \<open>
  An article object. The curated fallback stories have no \<^verbatim>\<open>link\<close>, no \<^verbatim>\<open>pubDate\<close>
  and no \<^verbatim>\<open>relevanceScore\<close>, and a parsed article has no \<^verbatim>\<open>relevanceScore\<close> before
  it is scored: these three properties are optional.
\<close>

record article =
  title :: string
  link :: "string option"
  description :: string
  pubDate :: "string option"
  category :: string
  source :: string
  relevanceScore :: "nat option"

record feedSource =
  feed_name :: string
  url :: string

definition rssFeeds :: "feedSource list" where
  "rssFeeds =
     [\<lparr>feed_name = ''Christianity Today'', url = ''https://www.christianitytoday.com/feed/''\<rparr>,
      \<lparr>feed_name = ''Desiring God'', url = ''https://www.desiringgod.org/feeds/all''\<rparr>,
      \<lparr>feed_name = ''The Gospel Coalition'', url = ''https://www.thegospelcoalition.org/feed/''\<rparr>,
      \<lparr>feed_name = ''Mission Network News'', url = ''https://www.mnnonline.org/feed/''\<rparr>,
      \<lparr>feed_name = ''International Christian Concern'',
        url = ''https://www.persecution.org/feed/''\<rparr>]"

text \<open>
  The parsed XML as the selectors of \<^verbatim>\<open>fetchRSSFeed\<close> see it: the \<^verbatim>\<open>item\<close> elements
  and the \<^verbatim>\<open>entry\<close> elements in document order, each with the text of the first
  descendant that the source looks up (the empty string when there is none), and for an
  entry the \<^verbatim>\<open>href\<close> attribute of its first \<^verbatim>\<open>link\<close> (\<open>None\<close> when there is none).
\<close>

record rssItem =
  item_title :: string
  item_link :: string
  item_description :: string
  item_pubDate :: string
  item_category :: string

record atomEntry =
  atom_title :: string
  atom_href :: "string option"
  atom_summary :: string
  atom_published :: string

record feedDocument =
  items :: "rssItem list"
  entries :: "atomEntry list"

text \<open>
  What the \<^verbatim>\<open>fetch\<close> of a feed meets: a rejected fetch or any other exception inside
  the \<^verbatim>\<open>try\<close>, a response that is not ok, or a response whose text parses to a document.
\<close>

datatype feed_fetch = FetchThrows | FetchStatus nat | FetchXml feedDocument

subsection \<open>Parsing a feed\<close>

text \<open>\<^verbatim>\<open>s.replace(/<[^>]*>/g, '')\<close>: every \<^verbatim>\<open><\<close> up to the next \<^verbatim>\<open>>\<close> is removed.\<close>

function stripTags :: "string \<Rightarrow> string" where
  "stripTags [] = []"
| "stripTags (c # cs) =
     (if c = CHR ''<''
      then (case dropWhile (\<lambda>x. x \<noteq> CHR ''>'') cs of
              [] \<Rightarrow> c # stripTags cs
            | g # rest \<Rightarrow> stripTags rest)
      else c # stripTags cs)"
  by pat_completeness auto
termination
proof (relation "measure length")
  show "wf (measure length)" by simp
next
  fix c :: char and cs :: string
  show "(cs, c # cs) \<in> measure length" by simp
next
  fix c :: char and cs :: string and g :: char and rest :: string
  assume "dropWhile (\<lambda>x. x \<noteq> CHR ''>'') cs = g # rest"
  then have "length (g # rest) \<le> length cs"
    by (metis length_dropWhile_le)
  then show "(rest, c # cs) \<in> measure length" by simp
next
  fix c :: char and cs :: string
  show "(cs, c # cs) \<in> measure length" by simp
qed

definition articleOfItem :: "feedSource \<Rightarrow> rssItem \<Rightarrow> article" where
  "articleOfItem feed el =
     \<lparr>title = trim (item_title el),
      link = Some (trim (item_link el)),
      description = take 300 (stripTags (trim (item_description el))),
      pubDate = Some (trim (item_pubDate el)),
      category = (if trim (item_category el) = [] then ''General'' else trim (item_category el)),
      source = feed_name feed,
      relevanceScore = None\<rparr>"

definition articleOfEntry :: "feedSource \<Rightarrow> atomEntry \<Rightarrow> article" where
  "articleOfEntry feed el =
     \<lparr>title = trim (atom_title el),
      link = Some (case atom_href el of None \<Rightarrow> [] | Some h \<Rightarrow> h),
      description = take 300 (stripTags (trim (atom_summary el))),
      pubDate = Some (trim (atom_published el)),
      category = ''General'',
      source = feed_name feed,
      relevanceScore = None\<rparr>"

text \<open>
  The two \<^verbatim>\<open>each\<close> loops: the callback returns false from index 5 on, and pushes an
  article when the title is not empty.
\<close>

definition rssArticles :: "feedSource \<Rightarrow> feedDocument \<Rightarrow> article list" where
  "rssArticles feed doc =
     filter (\<lambda>a. title a \<noteq> []) (map (articleOfItem feed) (take 5 (items doc)))"

definition atomArticles :: "feedSource \<Rightarrow> feedDocument \<Rightarrow> article list" where
  "atomArticles feed doc =
     filter (\<lambda>a. title a \<noteq> []) (map (articleOfEntry feed) (take 5 (entries doc)))"

definition fetchRSSFeed :: "feedSource \<Rightarrow> feed_fetch \<Rightarrow> article list" where
  "fetchRSSFeed feed response =
     (case response of
        FetchThrows \<Rightarrow> []
      | FetchStatus status \<Rightarrow> []
      | FetchXml doc \<Rightarrow>
          (let articles = rssArticles feed doc
           in if length articles = 0 then articles @ atomArticles feed doc else articles))"

text \<open>The web is a function from the URL of a feed to what its fetch meets.\<close>

definition gatherWebContent :: "(string \<Rightarrow> feed_fetch) \<Rightarrow> article list" where
  "gatherWebContent web =
     concat (filter (\<lambda>v. 0 < length v) (map (\<lambda>feed. fetchRSSFeed feed (web (url feed))) rssFeeds))"

subsection \<open>Relevance scoring\<close>

definition relevanceKeywords :: "string list" where
  "relevanceKeywords =
     [''kingdom'', ''church'', ''gospel'', ''mission'', ''revival'', ''disciple'',
      ''persecution'', ''faith'', ''prayer'', ''worship'', ''christian'', ''jesus'',
      ''lord'', ''spirit'', ''god'', ''bible'', ''scripture'', ''ministry'',
      ''plant'', ''evangel'', ''believer'', ''salvation'', ''bapti'', ''pastor'',
      ''community'', ''transform'', ''redemp'', ''grace'', ''mercy'', ''hope'']"

text \<open>The loop over the keywords, adding one for each keyword the text includes.\<close>

fun countKeywords :: "string \<Rightarrow> string list \<Rightarrow> nat \<Rightarrow> nat" where
  "countKeywords text [] score = score"
| "countKeywords text (keyword # rest) score =
     countKeywords text rest (if includesStr text keyword then score + 1 else score)"

definition scoreArticle :: "article \<Rightarrow> nat" where
  "scoreArticle a =
     countKeywords (toLowerCase (title a @ '' '' @ description a)) relevanceKeywords 0"

definition scoredArticles :: "article list \<Rightarrow> article list" where
  "scoredArticles articles = map (\<lambda>a. a\<lparr>relevanceScore := Some (scoreArticle a)\<rparr>) articles"

text \<open>
  The number that a comparison reads from \<^verbatim>\<open>relevanceScore\<close>; a missing score is not
  greater than 0.
\<close>

definition scoreValue :: "article \<Rightarrow> nat" where
  "scoreValue a = (case relevanceScore a of None \<Rightarrow> 0 | Some n \<Rightarrow> n)"

text \<open>
  \<^verbatim>\<open>scored.filter(...).sort((a, b) => b.relevanceScore - a.relevanceScore)\<close>.
  \<^verbatim>\<open>Array.prototype.sort\<close> is stable, so its result is the stable arrangement by
  descending score, which insertion by the negated score computes.
\<close>

definition relevantArticles :: "article list \<Rightarrow> article list" where
  "relevantArticles articles =
     sort_key (\<lambda>a. - int (scoreValue a)) (filter (\<lambda>a. 0 < scoreValue a) (scoredArticles articles))"

text \<open>A case-insensitive regular expression that is an alternation of literal words.\<close>

definition testAny :: "string list \<Rightarrow> string \<Rightarrow> bool" where
  "testAny words text = list_ex (\<lambda>w. includesStr (toLowerCase text) w) words"

record gatherMetadata =
  gather_month :: nat
  gather_year :: nat
  gatheredAt :: string
  articleCount :: nat
  usedFallback :: bool

record monthlyTheme =
  theme :: string
  focus :: string

record gatheredContent =
  topStories :: "article list"
  missionNews :: "article list"
  persecutionUpdates :: "article list"
  revivalReports :: "article list"
  cultureInfluence :: "article list"
  monthlyTheme :: "monthlyTheme option"
  isFallback :: "bool option"
  gather_metadata :: "gatherMetadata option"

definition categorizeContent :: "article list \<Rightarrow> gatheredContent" where
  "categorizeContent articles =
     (let relevant = relevantArticles articles
      in \<lparr>topStories = take 6 relevant,
          missionNews =
            take 3 (filter (\<lambda>a. testAny [''mission'', ''plant'', ''evangel'', ''unreached'']
                                  (title a @ '' '' @ description a)) relevant),
          persecutionUpdates =
            take 3 (filter (\<lambda>a. testAny [''persecut'', ''martyr'', ''imprison'', ''underground'']
                                  (title a @ '' '' @ description a)) relevant),
          revivalReports =
            take 3 (filter (\<lambda>a. testAny [''revival'', ''awaken'', ''movement'', ''growth'', ''bapti'']
                                  (title a @ '' '' @ description a)) relevant),
          cultureInfluence =
            take 3 (filter (\<lambda>a. testAny [''culture'', ''societ'', ''education'', ''government'',
                                           ''business'', ''art'', ''media'', ''transform'']
                                  (title a @ '' '' @ description a)) relevant),
          monthlyTheme = None,
          isFallback = None,
          gather_metadata = None\<rparr>)"

subsection \<open>Markup left in a string, and an example feed\<close>

text \<open>A string still holds a tag when some \<^verbatim>\<open><\<close> in it is followed, anywhere later, by \<^verbatim>\<open>>\<close>.\<close>

fun hasTag :: "string \<Rightarrow> bool" where
  "hasTag [] = False"
| "hasTag (c # cs) = ((c = CHR ''<'' \<and> CHR ''>'' \<in> set cs) \<or> hasTag cs)"

definition exampleFeed :: feedSource where
  "exampleFeed = \<lparr>feed_name = ''Mission Network News'', url = ''https://www.mnnonline.org/feed/''\<rparr>"

definition exampleDocument :: feedDocument where
  "exampleDocument =
     \<lparr>items =
        [\<lparr>item_title = '' <b>Revival</b> in Detroit '',
          item_link = ''https://example.org/1 '',
          item_description = ''<p>A <i>fresh</i> wave</p>'',
          item_pubDate = ''Mon, 02 Jun 2025 10:00:00 GMT'',
          item_category = ''''\<rparr>],
      entries = []\<rparr>"



text \<open>
  A document whose only \<^verbatim>\<open>item\<close> has a blank title, so that no article comes from the
  items, and which has one \<^verbatim>\<open>entry\<close>.
\<close>

definition atomDocument :: feedDocument where
  "atomDocument =
     \<lparr>items =
        [\<lparr>item_title = ''  '',
          item_link = ''https://example.org/0'',
          item_description = ''untitled'',
          item_pubDate = ''Sun, 01 Jun 2025 10:00:00 GMT'',
          item_category = ''News''\<rparr>],
      entries =
        [\<lparr>atom_title = '' Prayer <em>works</em> '',
          atom_href = Some '' https://example.org/2 '',
          atom_summary = '' <div>Churches pray</div> 1 < 2 '',
          atom_published = ''2025-06-02T10:00:00Z ''\<rparr>]\<rparr>"

subsection \<open>Fallback content and the entry point\<close>

definition monthlyThemes :: "nat \<Rightarrow> monthlyTheme option" where
  "monthlyThemes =
     map_of
       [(1, \<lparr>theme = ''New Kingdom Beginnings'',
             focus = ''Starting the year under Kingdom authority''\<rparr>),
        (2, \<lparr>theme = ''Kingdom Love'',
             focus = ''The radical, sacrificial love of King Jesus''\<rparr>),
        (3, \<lparr>theme = ''Kingdom Advancement'',
             focus = ''Pressing forward into new territory for the King''\<rparr>),
        (4, \<lparr>theme = ''Resurrection Power'',
             focus = ''Living in the power of the risen Christ''\<rparr>),
        (5, \<lparr>theme = ''Kingdom Mothers'',
             focus = ''Raising the next generation of Kingdom citizens''\<rparr>),
        (6, \<lparr>theme = ''Kingdom Fathers'', focus = ''Fatherhood as Kingdom leadership''\<rparr>),
        (7, \<lparr>theme = ''Kingdom Freedom'', focus = ''True freedom under the reign of Christ''\<rparr>),
        (8, \<lparr>theme = ''Kingdom Education'', focus = ''Developing a Kingdom worldview''\<rparr>),
        (9, \<lparr>theme = ''Kingdom Harvest'',
             focus = ''The harvest is plentiful - laboring for the Kingdom''\<rparr>),
        (10, \<lparr>theme = ''Kingdom Authority'',
              focus = ''Walking in the authority Christ delegated to His Church''\<rparr>),
        (11, \<lparr>theme = ''Kingdom Gratitude'', focus = ''Thanksgiving as a Kingdom discipline''\<rparr>),
        (12, \<lparr>theme = ''The King Has Come'',
              focus = ''Advent - celebrating the arrival of the King''\<rparr>)]"

definition fallbackStory :: "string \<Rightarrow> string \<Rightarrow> string \<Rightarrow> article" where
  "fallbackStory t d c =
     \<lparr>title = t, link = None, description = d, pubDate = None, category = c,
      source = ''Kingdom Intelligence Report'', relevanceScore = None\<rparr>"

definition fallbackStories :: "article list" where
  "fallbackStories =
     [fallbackStory ''Underground Church Growth Continues in Restricted Nations''
        ''Despite increasing persecution, the underground church continues to grow in nations where Christianity is restricted. Reports indicate that house churches are multiplying as believers share the gospel with boldness.''
        ''Persecution & Growth'',
      fallbackStory ''Church Planting Movements Accelerate Across Global South''
        ''Church planting movements in Africa, Asia, and Latin America continue to accelerate, with thousands of new congregations forming as the gospel penetrates unreached communities.''
        ''Missions'',
      fallbackStory ''Christians Making Impact in Business and Marketplace''
        ''Kingdom-minded entrepreneurs and business leaders are increasingly using their platforms to advance Kingdom values, create jobs, and demonstrate the lordship of Christ in the marketplace.''
        ''Kingdom Influence'',
      fallbackStory ''Global Prayer Movement Intensifies''
        ''Prayer movements around the world are growing in intensity and unity, with millions joining in coordinated intercession for revival, persecuted believers, and Kingdom breakthrough.''
        ''Prayer'',
      fallbackStory ''Youth Revival Sweeping College Campuses''
        ''A fresh wave of spiritual awakening is being reported on college campuses, with students committing to radical discipleship and Kingdom living in the face of cultural pressure.''
        ''Revival'',
      fallbackStory ''Christian Education Initiatives Transforming Communities''
        ''Kingdom-centered education initiatives are transforming communities by equipping students with both academic excellence and a biblical worldview rooted in the lordship of Christ.''
        ''Education'']"

text \<open>\<^verbatim>\<open>monthlyThemes[month] || monthlyThemes[1]\<close>: a month outside 1..12 gets the theme of January.\<close>

definition currentTheme :: "nat \<Rightarrow> monthlyTheme" where
  "currentTheme month =
     (case monthlyThemes month of
        Some t \<Rightarrow> t
      | None \<Rightarrow> \<lparr>theme = ''New Kingdom Beginnings'',
                   focus = ''Starting the year under Kingdom authority''\<rparr>)"

definition getFallbackContent :: "nat \<Rightarrow> gatheredContent" where
  "getFallbackContent month =
     \<lparr>topStories = fallbackStories,
      missionNews = [fallbackStories ! 1],
      persecutionUpdates = [fallbackStories ! 0],
      revivalReports = [fallbackStories ! 4],
      cultureInfluence = [fallbackStories ! 2, fallbackStories ! 5],
      monthlyTheme = Some (currentTheme month),
      isFallback = Some True,
      gather_metadata = None\<rparr>"

text \<open>
  \<^verbatim>\<open>gatherContent\<close>. \<^verbatim>\<open>gatherWebContent\<close> has no exception to throw in this model
  (every failure of a feed is a value of \<open>feed_fetch\<close>), so the \<^verbatim>\<open>catch\<close> of the
  source has no branch here. \<open>now\<close> is the clock reading written to \<^verbatim>\<open>gatheredAt\<close>.
\<close>

definition gatherContent ::
  "nat \<Rightarrow> nat \<Rightarrow> (string \<Rightarrow> feed_fetch) \<Rightarrow> string \<Rightarrow> gatheredContent" where
  "gatherContent month year web now =
     (let articles = gatherWebContent web;
          content1 = (if 0 < length articles
                      then (categorizeContent articles)\<lparr>isFallback := Some False\<rparr>
                      else getFallbackContent month);
          content2 = (if monthlyTheme content1 = None
                      then content1\<lparr>monthlyTheme := monthlyTheme (getFallbackContent month)\<rparr>
                      else content1)
      in content2\<lparr>gather_metadata :=
           Some \<lparr>gather_month = month, gather_year = year, gatheredAt = now,
                  articleCount = length articles,
                  usedFallback = (isFallback content2 = Some True)\<rparr>\<rparr>)"

text \<open>A web where the feed of Mission Network News answers with the example document and every other feed fails.\<close>

definition oneFeedUp :: "string \<Rightarrow> feed_fetch" where
  "oneFeedUp u =
     (if u = ''https://www.mnnonline.org/feed/'' then FetchXml exampleDocument else FetchThrows)"

section \<open>Publisher (publish.js)\<close>

subsection \<open>The dateKey: \<^verbatim>\<open>format(new Date(year, month - 1, 1), 'yyyy-MM')\<close>\<close>

text \<open>
  \<open>month\<close> and \<open>year\<close> are natural numbers. The \<^verbatim>\<open>Date\<close> constructor maps a year
  from 0 to 99 to 1900 plus that year and carries a month index outside 0..11 into the
  year (month 13 is January of the next year, month 0 is December of the year before).
  The year is at least 100 after the first step, so the subtraction in
  \<open>monthsSinceYear0\<close> never truncates. A date after September 275760 is an invalid
  \<^verbatim>\<open>Date\<close>, on which \<^verbatim>\<open>format\<close> throws a RangeError. The tokens \<^verbatim>\<open>yyyy\<close> and
  \<^verbatim>\<open>MM\<close> pad with zeros to four and two digits.
\<close>

definition digitChar :: "nat \<Rightarrow> char" where
  "digitChar d = ''0123456789'' ! d"

fun toDecimal :: "nat \<Rightarrow> string" where
  "toDecimal n =
     (if n < 10 then [digitChar n] else toDecimal (n div 10) @ [digitChar (n mod 10)])"

declare toDecimal.simps [simp del]

definition addLeadingZeros :: "nat \<Rightarrow> nat \<Rightarrow> string" where
  "addLeadingZeros n targetLength =
     replicate (targetLength - length (toDecimal n)) (CHR ''0'') @ toDecimal n"

definition jsFullYear :: "nat \<Rightarrow> nat" where
  "jsFullYear y = (if y \<le> 99 then 1900 + y else y)"

definition monthsSinceYear0 :: "nat \<Rightarrow> nat \<Rightarrow> nat" where
  "monthsSinceYear0 y m = jsFullYear y * 12 + m - 1"

definition validDate :: "nat \<Rightarrow> nat \<Rightarrow> bool" where
  "validDate y m = (monthsSinceYear0 y m \<le> 275760 * 12 + 8)"



subsection \<open>Newsletter and archive\<close>

text \<open>
  Field names that several objects of the source share (\<^verbatim>\<open>title\<close>, \<^verbatim>\<open>theme\<close>,
  \<^verbatim>\<open>dateString\<close>, \<^verbatim>\<open>generatedAt\<close>) carry a prefix in all but one record.
\<close>

record metadata =
  meta_title :: string
  subtitle :: string
  month :: nat
  year :: nat
  monthName :: string
  meta_dateString :: string
  meta_generatedAt :: string
  ministry :: string
  pastor :: string
  contentSource :: string
  meta_theme :: "monthlyTheme option"

record newsletterSection =
  section_title :: string
  content :: string

record sections =
  pastoralMessage :: newsletterSection
  kingdomIntelligence :: newsletterSection
  kingdomLiving :: newsletterSection
  prayerFocus :: newsletterSection
  scriptureFocus :: newsletterSection
  upcoming :: newsletterSection

record newsletter =
  metadata :: metadata
  sections :: sections










section \<open>AI section generator (newsletter-generator.js)\<close>

text \<open>
  What one \<^verbatim>\<open>fetch\<close> of the completion API meets: a rejected fetch, a response that is
  not ok (status and body), a body that is not JSON, a body without
  \<^verbatim>\<open>choices[0].message\<close>, a message whose content is not a string (the call of
  \<^verbatim>\<open>trim\<close> throws), or a completion. The strings are the messages of the errors thrown.
\<close>

datatype groq_response =
    FetchFailed string
  | HttpStatus nat string
  | BadJson string
  | NoMessage
  | ContentNotString string
  | Completion string

definition maxRetries :: nat where
  "maxRetries = 3"

definition retryDelayMs :: nat where
  "retryDelayMs = 2000"

text \<open>
  The API is a function from the number of requests made so far to what the next one
  meets. The state counts the requests and lists the pauses taken.
\<close>

record groq_state =
  calls :: nat
  sleeps :: "nat list"

definition completionOf :: "groq_response \<Rightarrow> string option" where
  "completionOf r = (case r of Completion c \<Rightarrow> Some c | _ \<Rightarrow> None)"

definition errorMessage :: "groq_response \<Rightarrow> string" where
  "errorMessage r =
     (case r of
        FetchFailed m \<Rightarrow> m
      | HttpStatus status errorBody \<Rightarrow> ''Groq API '' @ toDecimal status @ '': '' @ errorBody
      | BadJson m \<Rightarrow> m
      | NoMessage \<Rightarrow> ''Unexpected API response structure''
      | ContentNotString m \<Rightarrow> m
      | Completion c \<Rightarrow> [])"

text \<open>The \<^verbatim>\<open>catch\<close> block of attempt number \<open>attempt\<close>, after the request was made.\<close>

definition afterFailure :: "nat \<Rightarrow> groq_state \<Rightarrow> groq_state" where
  "afterFailure attempt st =
     (if attempt < maxRetries
      then st\<lparr>calls := calls st + 1, sleeps := sleeps st @ [retryDelayMs * attempt]\<rparr>
      else st\<lparr>calls := calls st + 1\<rparr>)"

text \<open>The \<^verbatim>\<open>for\<close> loop of \<^verbatim>\<open>callGroqAI\<close> from attempt number \<open>attempt\<close>.\<close>

function groqAttempts ::
  "(nat \<Rightarrow> groq_response) \<Rightarrow> nat \<Rightarrow> string \<Rightarrow> groq_state \<Rightarrow> (js_error + string) \<times> groq_state" where
  "groqAttempts api attempt lastError st =
     (if attempt \<le> maxRetries
      then (case completionOf (api (calls st)) of
              Some c \<Rightarrow> (Inr (trim c), st\<lparr>calls := calls st + 1\<rparr>)
            | None \<Rightarrow>
                groqAttempts api (attempt + 1) (errorMessage (api (calls st)))
                  (afterFailure attempt st))
      else (Inl (GroqFailed maxRetries lastError), st))"
  by pat_completeness auto
termination
  by (relation "measure (\<lambda>(api, attempt, lastError, st). maxRetries + 1 - attempt)") auto

declare groqAttempts.simps [simp del]

definition callGroqAI ::
  "bool \<Rightarrow> (nat \<Rightarrow> groq_response) \<Rightarrow> groq_state \<Rightarrow> (js_error + string) \<times> groq_state" where
  "callGroqAI keySet api st =
     (if \<not> keySet then (Inl MissingApiKey, st) else groqAttempts api 1 [] st)"

text \<open>
  \<^verbatim>\<open>await\<close> of a call that can throw: an exception leaves the caller at once, with the
  state as the call left it.
\<close>

definition andThen ::
  "(js_error + 'a) \<times> groq_state \<Rightarrow> ('a \<Rightarrow> groq_state \<Rightarrow> (js_error + 'b) \<times> groq_state)
   \<Rightarrow> (js_error + 'b) \<times> groq_state" where
  "andThen r f = (case r of (Inl e, st) \<Rightarrow> (Inl e, st) | (Inr v, st) \<Rightarrow> f v st)"

definition monthNames :: "string list" where
  "monthNames =
     [''January'', ''February'', ''March'', ''April'', ''May'', ''June'', ''July'',
      ''August'', ''September'', ''October'', ''November'', ''December'']"

definition formatMonthName :: "nat \<Rightarrow> nat \<Rightarrow> string" where
  "formatMonthName y m = monthNames ! (monthsSinceYear0 y m mod 12)"

definition formatYear :: "nat \<Rightarrow> nat \<Rightarrow> string" where
  "formatYear y m = addLeadingZeros (monthsSinceYear0 y m div 12) 4"

text \<open>
  The six section generators differ in the prompt they build and in nothing else: each
  is one call of \<^verbatim>\<open>callGroqAI\<close>. The prompts are the bodies of the requests and play no
  part in what the program does with the answers.
\<close>

definition assembleNewsletter ::
  "gatheredContent \<Rightarrow> nat \<Rightarrow> nat \<Rightarrow> string \<Rightarrow> string list \<Rightarrow> newsletter" where
  "assembleNewsletter c m y now texts =
     \<lparr>metadata =
        \<lparr>meta_title = ''The Kingdom Report'',
         subtitle = ''Monthly Intelligence from Increasing Faith Ministries'',
         month = m, year = y,
         monthName = formatMonthName y m,
         meta_dateString = formatMonthName y m @ '' '' @ formatYear y m,
         meta_generatedAt = now,
         ministry = ''Increasing Faith Ministries'',
         pastor = ''Curtis Stephens Jr.'',
         contentSource = (if isFallback c = Some True then ''fallback'' else ''web''),
         meta_theme = monthlyTheme c\<rparr>,
      sections =
        \<lparr>pastoralMessage =
           \<lparr>section_title = ''From the Desk of Pastor Curtis'', content = texts ! 0\<rparr>,
         kingdomIntelligence =
           \<lparr>section_title = ''Kingdom Intelligence'', content = texts ! 1\<rparr>,
         kingdomLiving = \<lparr>section_title = ''Kingdom Living'', content = texts ! 2\<rparr>,
         prayerFocus = \<lparr>section_title = ''Prayer Focus'', content = texts ! 3\<rparr>,
         scriptureFocus = \<lparr>section_title = ''Scripture of the Month'', content = texts ! 4\<rparr>,
         upcoming = \<lparr>section_title = ''Upcoming at IFM'', content = texts ! 5\<rparr>\<rparr>\<rparr>"

definition generateNewsletter ::
  "gatheredContent \<Rightarrow> nat \<Rightarrow> nat \<Rightarrow> bool \<Rightarrow> (nat \<Rightarrow> groq_response) \<Rightarrow> string \<Rightarrow> groq_state
   \<Rightarrow> (js_error + newsletter) \<times> groq_state" where
  "generateNewsletter c m y keySet api now st =
     (if \<not> validDate y m then (Inl RangeError, st)
      else
        andThen (callGroqAI keySet api st) (\<lambda>pastoralText st.
        andThen (callGroqAI keySet api st) (\<lambda>intelligenceText st.
        andThen (callGroqAI keySet api st) (\<lambda>livingText st.
        andThen (callGroqAI keySet api st) (\<lambda>prayerText st.
        andThen (callGroqAI keySet api st) (\<lambda>scriptureText st.
        andThen (callGroqAI keySet api st) (\<lambda>upcomingText st.
          (Inr (assembleNewsletter c m y now
                  [pastoralText, intelligenceText, livingText, prayerText, scriptureText,
                   upcomingText]), st))))))))"

text \<open>
  \<open>n\<close> calls of \<^verbatim>\<open>callGroqAI\<close> one after the other, stopping at the first that throws:
  the texts of all \<open>n\<close>, or the exception.
\<close>

fun callsInSequence ::
  "nat \<Rightarrow> bool \<Rightarrow> (nat \<Rightarrow> groq_response) \<Rightarrow> groq_state
   \<Rightarrow> (js_error + string list) \<times> groq_state" where
  "callsInSequence 0 keySet api st = (Inr [], st)"
| "callsInSequence (Suc n) keySet api st =
     andThen (callGroqAI keySet api st) (\<lambda>text st1.
     andThen (callsInSequence n keySet api st1) (\<lambda>texts st2. (Inr (text # texts), st2)))"




section \<open>Subscribers (subscribers.js)\<close>

record subscriber =
  name :: string
  email :: string
  subscribedAt :: string

text \<open>
  \<^verbatim>\<open>deduplicateSubscribers\<close>: one pass over the list with the set \<open>seen\<close> of
  normalised emails met so far and the output list \<open>unique\<close>, to which an entry is
  pushed (with its email replaced by the normalised one) when its key is new.
\<close>

fun dedupLoop :: "string set \<Rightarrow> subscriber list \<Rightarrow> subscriber list \<Rightarrow> subscriber list" where
  "dedupLoop seen unique [] = unique"
| "dedupLoop seen unique (sub # rest) =
     (let normalizedEmail = trim (toLowerCase (email sub)) in
      if normalizedEmail \<notin> seen
      then dedupLoop (insert normalizedEmail seen)
             (unique @ [sub\<lparr>email := normalizedEmail\<rparr>]) rest
      else dedupLoop seen unique rest)"

definition deduplicateSubscribers :: "subscriber list \<Rightarrow> subscriber list" where
  "deduplicateSubscribers subscribers = dedupLoop {} [] subscribers"

section \<open>Newsletter sender (send-newsletter.js)\<close>

text \<open>
  The mail API is outside the program: \<open>world k\<close> is what the \<open>k\<close>-th call of
  \<^verbatim>\<open>sendEmail\<close> of a run meets. \<^verbatim>\<open>sendEmail\<close> returns on \<open>Accepted\<close> and throws on
  the other two (a response that is not ok, a rejected fetch).
\<close>

datatype send_outcome = Accepted | ApiError nat | NetworkError

record sender_state =
  sent :: nat
  failed :: nat
  attempts :: "string list"
  batchLog :: "nat list"
  delays :: "nat list"

text \<open>
  \<open>attempts\<close> lists the recipients of the calls of \<^verbatim>\<open>sendEmail\<close> in order,
  \<open>batchLog\<close> the batch lengths printed by line 106, \<open>delays\<close> the arguments of the
  calls of \<^verbatim>\<open>sleep\<close>.
\<close>

definition batchSize :: nat where
  "batchSize = 10"

definition batchDelay :: nat where
  "batchDelay = 2000"

definition slice :: "'a list \<Rightarrow> nat \<Rightarrow> nat \<Rightarrow> 'a list" where
  "slice xs i j = take (j - i) (drop i xs)"

text \<open>The inner loop: one \<^verbatim>\<open>try\<close>/\<^verbatim>\<open>catch\<close> around each send.\<close>

fun sendBatch :: "(nat \<Rightarrow> send_outcome) \<Rightarrow> subscriber list \<Rightarrow> sender_state \<Rightarrow> sender_state" where
  "sendBatch world [] st = st"
| "sendBatch world (subscriber # rest) st =
     sendBatch world rest
       (case world (length (attempts st)) of
          Accepted \<Rightarrow> st\<lparr>sent := sent st + 1, attempts := attempts st @ [email subscriber]\<rparr>
        | ApiError status \<Rightarrow>
            st\<lparr>failed := failed st + 1, attempts := attempts st @ [email subscriber]\<rparr>
        | NetworkError \<Rightarrow>
            st\<lparr>failed := failed st + 1, attempts := attempts st @ [email subscriber]\<rparr>)"

text \<open>
  The body of the outer loop (lines 105 to 123) at index \<open>i\<close>, and the loop of lines 104
  to 124 from index \<open>i\<close>.
\<close>

definition batchIteration ::
  "(nat \<Rightarrow> send_outcome) \<Rightarrow> subscriber list \<Rightarrow> nat \<Rightarrow> sender_state \<Rightarrow> sender_state" where
  "batchIteration world subscribers i st =
     (let batch = slice subscribers i (i + batchSize);
          st1 = sendBatch world batch (st\<lparr>batchLog := batchLog st @ [length batch]\<rparr>)
      in if i + batchSize < length subscribers
         then st1\<lparr>delays := delays st1 @ [batchDelay]\<rparr>
         else st1)"

function sendBatches ::
  "(nat \<Rightarrow> send_outcome) \<Rightarrow> subscriber list \<Rightarrow> nat \<Rightarrow> sender_state \<Rightarrow> sender_state" where
  "sendBatches world subscribers i st =
     (if i < length subscribers
      then sendBatches world subscribers (i + batchSize) (batchIteration world subscribers i st)
      else st)"
  by pat_completeness auto
termination
  by (relation "measure (\<lambda>(world, subscribers, i, st). length subscribers - i)")
    (auto simp: batchSize_def)

declare sendBatches.simps [simp del]

definition sendAll :: "(nat \<Rightarrow> send_outcome) \<Rightarrow> subscriber list \<Rightarrow> sender_state" where
  "sendAll world subscribers =
     sendBatches world subscribers 0
       \<lparr>sent = 0, failed = 0, attempts = [], batchLog = [], delays = []\<rparr>"

text \<open>
  \<^verbatim>\<open>main\<close> up to the loop: preview mode writes the HTML and returns; a missing content
  file, template or API key ends the process with exit code 1. \<open>testEmail\<close> is the
  argument after \<^verbatim>\<open>--test\<close> (\<open>None\<close> without \<^verbatim>\<open>--test\<close> and when \<^verbatim>\<open>--test\<close> is the
  last argument); the source tests its truth, so only a non-empty one makes the test
  subscriber the whole list. Otherwise the subscribers are fetched, and an empty list
  ends the run before any send. The test subscriber of the source has a name and an
  email only; its \<open>subscribedAt\<close> is empty here.
\<close>

record sender_env =
  isPreview :: bool
  testEmail :: "string option"
  contentLoaded :: bool
  templateLoaded :: bool
  resendApiKeySet :: bool
  fetchedSubscribers :: "subscriber list"

datatype sender_result =
    Exit1
  | PreviewSaved
  | NoSubscribers
  | DeliveryComplete sender_state

definition sender_main :: "sender_env \<Rightarrow> (nat \<Rightarrow> send_outcome) \<Rightarrow> sender_result" where
  "sender_main env world =
     (if \<not> contentLoaded env then Exit1
      else if \<not> templateLoaded env then Exit1
      else if isPreview env then PreviewSaved
      else if \<not> resendApiKeySet env then Exit1
      else
        (case testEmail env of
           Some (c # cs) \<Rightarrow>
             DeliveryComplete
               (sendAll world
                  [\<lparr>name = ''Test Subscriber'', email = c # cs, subscribedAt = ''''\<rparr>])
         | _ \<Rightarrow>
             if length (fetchedSubscribers env) = 0 then NoSubscribers
             else DeliveryComplete (sendAll world (fetchedSubscribers env))))"




section \<open>Live alert notifier (send-alert.js)\<close>

text \<open>
  What a \<^verbatim>\<open>fetch\<close> of the notifier meets: a response that is ok with the body the
  sender reads, a response that is ok with a body it cannot read, a response that is not
  ok, or a rejected fetch.
\<close>

datatype http_outcome = OkBody | OkBadBody | HttpError nat | Rejected

record alert_config =
  botToken :: string
  channelId :: string
  apiKey :: string
  alertSubscribers :: "string list"

text \<open>The configuration of the source with the three environment variables as given.\<close>

definition alertConfig :: "string \<Rightarrow> string \<Rightarrow> string \<Rightarrow> alert_config" where
  "alertConfig telegramBotToken telegramChannelId resendApiKey =
     \<lparr>botToken = telegramBotToken,
      channelId = telegramChannelId,
      apiKey = resendApiKey,
      alertSubscribers =
        [''curtisstephensjr@gmail.com'', ''deborahliadi@gmail.com'',
         ''andrewstaneatia@gmail.com'', ''hawkins.lynette@yahoo.com'',
         ''tammystephens66@yahoo.com'', ''cdubdub23@gmail.com'']\<rparr>"

record alert_world =
  ntfyResponse :: http_outcome
  telegramResponse :: http_outcome
  emailResponse :: "string \<Rightarrow> http_outcome"

text \<open>The effects of a run, in order: the requests made and the pauses taken.\<close>

datatype alert_event = NtfyPost | TelegramPost | EmailPost string | Sleep nat

definition sendNtfy :: "alert_world \<Rightarrow> alert_event list \<times> bool" where
  "sendNtfy w = ([NtfyPost], ntfyResponse w = OkBody)"

definition sendTelegram :: "alert_config \<Rightarrow> alert_world \<Rightarrow> alert_event list \<times> bool" where
  "sendTelegram cfg w =
     (if botToken cfg = '''' \<or> channelId cfg = '''' then ([], False)
      else ([TelegramPost], telegramResponse w = OkBody))"

text \<open>
  The loop of \<^verbatim>\<open>sendEmail\<close> over the recipients, with the events and the two
  counters \<^verbatim>\<open>sent\<close> and \<^verbatim>\<open>failed\<close>. A send
  counts as sent when the response is ok, and is followed by a pause of 600 ms.
\<close>

fun alertEmailLoop :: "alert_world \<Rightarrow> string list \<Rightarrow> alert_event list \<times> nat \<times> nat" where
  "alertEmailLoop w [] = ([], 0, 0)"
| "alertEmailLoop w (e # rest) =
     (case alertEmailLoop w rest of
        (events, nSent, nFailed) \<Rightarrow>
          if emailResponse w e = OkBody \<or> emailResponse w e = OkBadBody
          then (EmailPost e # Sleep 600 # events, nSent + 1, nFailed)
          else (EmailPost e # events, nSent, nFailed + 1))"

definition sendAlertEmail :: "alert_config \<Rightarrow> alert_world \<Rightarrow> alert_event list \<times> bool" where
  "sendAlertEmail cfg w =
     (if apiKey cfg = '''' then ([], False)
      else if length (alertSubscribers cfg) = 0 then ([], False)
      else (case alertEmailLoop w (alertSubscribers cfg) of
              (events, nSent, nFailed) \<Rightarrow> (events, 0 < nSent)))"

text \<open>
  \<^verbatim>\<open>args.indexOf(flag)\<close> and the argument after it: \<open>None\<close> when the flag is absent,
  \<open>Some None\<close> (JavaScript's undefined) when the flag is the last argument.
\<close>

fun indexOf :: "string list \<Rightarrow> string \<Rightarrow> nat option" where
  "indexOf [] x = None"
| "indexOf (a # as) x =
     (if a = x then Some 0 else (case indexOf as x of None \<Rightarrow> None | Some i \<Rightarrow> Some (i + 1)))"

definition argAfter :: "string list \<Rightarrow> string \<Rightarrow> string option option" where
  "argAfter args flag =
     (case indexOf args flag of
        None \<Rightarrow> None
      | Some i \<Rightarrow> Some (if i + 1 < length args then Some (args ! (i + 1)) else None))"

definition platformOf :: "string list \<Rightarrow> string option" where
  "platformOf args = (case argAfter args ''--platform'' of None \<Rightarrow> Some ''all'' | Some p \<Rightarrow> p)"

record alert_results =
  ntfy :: "bool option"
  telegram :: "bool option"
  email_channel :: "bool option"

text \<open>
  \<^verbatim>\<open>main\<close> of the notifier: the results object (a key that is not set is \<open>None\<close>) and
  the events of the run. The message is the body of the requests and plays no part in
  which requests are made.
\<close>

definition alert_main ::
  "string list \<Rightarrow> alert_config \<Rightarrow> alert_world \<Rightarrow> alert_results \<times> alert_event list" where
  "alert_main args cfg w =
     (let isTest = (''--test'' \<in> set args);
          platform = platformOf args;
          (ev1, r1) =
            (if isTest \<or> platform = Some ''all'' \<or> platform = Some ''ntfy''
             then (case sendNtfy w of (ev, ok) \<Rightarrow> (ev, Some ok))
             else ([], None));
          (ev2, r2) =
            (if \<not> isTest \<and> (platform = Some ''all'' \<or> platform = Some ''telegram'')
             then (case sendTelegram cfg w of (ev, ok) \<Rightarrow> (ev, Some ok))
             else ([], None));
          (ev3, r3) =
            (if \<not> isTest \<and> (platform = Some ''all'' \<or> platform = Some ''email'')
             then (case sendAlertEmail cfg w of (ev, ok) \<Rightarrow> (ev, Some ok))
             else ([], None))
      in (\<lparr>ntfy = r1, telegram = r2, email_channel = r3\<rparr>, ev1 @ ev2 @ ev3))"

section \<open>Newsletter signup handler (netlify/functions/newsletter-signup.js)\<close>

text \<open>
  \<^verbatim>\<open>isValidEmail\<close>: the value is a string that is not empty and, once trimmed, matches
  \<^verbatim>\<open>/^[^\s@]+@[^\s@]+\.[^\s@]+$/\<close>: no white space, exactly one \<^verbatim>\<open>@\<close> with a
  non-empty part before it, and after it a part that holds a dot which is neither its
  first nor its last character.
\<close>

datatype js_value = Undefined | Str string | NotAString

definition plainChar :: "char \<Rightarrow> bool" where
  "plainChar c = (\<not> isSpace c \<and> c \<noteq> CHR ''@'')"

definition matchesEmailRegex :: "string \<Rightarrow> bool" where
  "matchesEmailRegex s =
     (let local = takeWhile plainChar s;
          rest = dropWhile plainChar s
      in local \<noteq> []
         \<and> (case rest of
               [] \<Rightarrow> False
             | c # domain \<Rightarrow>
                 c = CHR ''@'' \<and> list_all plainChar domain
                 \<and> CHR ''.'' \<in> set (butlast (tl domain))))"

definition isValidEmail :: "js_value \<Rightarrow> bool" where
  "isValidEmail v =
     (case v of
        Undefined \<Rightarrow> False
      | NotAString \<Rightarrow> False
      | Str e \<Rightarrow> e \<noteq> [] \<and> matchesEmailRegex (trim e))"

text \<open>
  The request: its method and what parsing its body gives (parsing can throw). The
  environment: whether \<^verbatim>\<open>RESEND_API_KEY\<close> is set. The mail API: what the one
  \<^verbatim>\<open>fetch\<close> of \<^verbatim>\<open>sendWelcomeEmail\<close> meets.
\<close>

datatype request_body = BodyUnparsable | Body js_value js_value

record signup_event =
  httpMethod :: string
  body :: request_body

datatype json_result = JsonInvalid | JsonNull | JsonObject bool bool

datatype welcome_fetch = FetchRejected | NotOk nat | Ok json_result

datatype welcome_result = Skipped | SendError nat | ApiReply bool bool

datatype exn = Thrown

text \<open>
  \<^verbatim>\<open>sendWelcomeEmail\<close>: the result together with the recipients of the requests made.
  \<open>JsonObject s e\<close> is a reply whose properties \<^verbatim>\<open>skipped\<close> and \<^verbatim>\<open>error\<close> are truthy
  as \<open>s\<close> and \<open>e\<close> say; on a null reply the handler's read of \<^verbatim>\<open>emailResult.skipped\<close>
  throws.
\<close>

definition sendWelcomeEmail ::
  "bool \<Rightarrow> welcome_fetch \<Rightarrow> string \<Rightarrow> (exn + welcome_result) \<times> string list" where
  "sendWelcomeEmail keySet api recipient =
     (if \<not> keySet then (Inr Skipped, [])
      else
        (case api of
           FetchRejected \<Rightarrow> (Inl Thrown, [recipient])
         | NotOk status \<Rightarrow> (Inr (SendError status), [recipient])
         | Ok JsonInvalid \<Rightarrow> (Inl Thrown, [recipient])
         | Ok JsonNull \<Rightarrow> (Inl Thrown, [recipient])
         | Ok (JsonObject s e) \<Rightarrow> (Inr (ApiReply s e), [recipient])))"

record signup_response =
  statusCode :: nat
  success :: "bool option"
  emailSent :: "bool option"

definition handler ::
  "signup_event \<Rightarrow> bool \<Rightarrow> welcome_fetch \<Rightarrow> signup_response \<times> string list" where
  "handler event keySet api =
     (if httpMethod event = ''OPTIONS''
      then (\<lparr>statusCode = 204, success = None, emailSent = None\<rparr>, [])
      else if httpMethod event \<noteq> ''POST''
      then (\<lparr>statusCode = 405, success = Some False, emailSent = None\<rparr>, [])
      else
        (case body event of
           BodyUnparsable \<Rightarrow> (\<lparr>statusCode = 500, success = Some False, emailSent = None\<rparr>, [])
         | Body emailValue nameValue \<Rightarrow>
             if \<not> isValidEmail emailValue
             then (\<lparr>statusCode = 400, success = Some False, emailSent = None\<rparr>, [])
             else
               (case emailValue of
                  Str e \<Rightarrow>
                    (case sendWelcomeEmail keySet api (trim e) of
                       (Inl x, requests) \<Rightarrow>
                         (\<lparr>statusCode = 500, success = Some False, emailSent = None\<rparr>, requests)
                     | (Inr Skipped, requests) \<Rightarrow>
                         (\<lparr>statusCode = 200, success = Some True, emailSent = Some False\<rparr>,
                          requests)
                     | (Inr (SendError status), requests) \<Rightarrow>
                         (\<lparr>statusCode = 200, success = Some True, emailSent = Some False\<rparr>,
                          requests)
                     | (Inr (ApiReply s err), requests) \<Rightarrow>
                         (\<lparr>statusCode = 200, success = Some True,
                            emailSent = Some (\<not> s \<and> \<not> err)\<rparr>, requests))
                | Undefined \<Rightarrow>
                    (\<lparr>statusCode = 400, success = Some False, emailSent = None\<rparr>, [])
                | NotAString \<Rightarrow>
                    (\<lparr>statusCode = 400, success = Some False, emailSent = None\<rparr>, []))))"

section \<open>Properties of the string primitives\<close>

lemma toLowerChar_idem: "toLowerChar (toLowerChar c) = toLowerChar c"
  unfolding toLowerChar_def by (simp split: if_splits)

lemma toLowerCase_idem: "toLowerCase (toLowerCase s) = toLowerCase s"
  by (simp add: toLowerCase_def toLowerChar_idem)

lemma isSpace_toLowerChar: "isSpace (toLowerChar c) = isSpace c"
  unfolding toLowerChar_def isSpace_def by (simp split: if_splits)

lemma dropWhile_toLowerCase:
  "dropWhile isSpace (toLowerCase s) = toLowerCase (dropWhile isSpace s)"
  unfolding toLowerCase_def by (induction s) (simp_all add: isSpace_toLowerChar)

lemma trim_toLowerCase: "trim (toLowerCase s) = toLowerCase (trim s)"
  unfolding trim_def
  by (metis dropWhile_toLowerCase rev_map toLowerCase_def)

lemma dropWhile_fix: "xs = [] \<or> \<not> P (hd xs) \<Longrightarrow> dropWhile P xs = xs"
  by (cases xs) auto

lemma trim_idem: "trim (trim s) = trim s"
proof -
  define d where "d = dropWhile isSpace s"
  define t where "t = dropWhile isSpace (rev d)"
  have d_hd: "d = [] \<or> \<not> isSpace (hd d)"
    unfolding d_def by (metis hd_dropWhile)
  have "rev d = takeWhile isSpace (rev d) @ t"
    unfolding t_def by simp
  then have d_eq: "d = rev t @ rev (takeWhile isSpace (rev d))"
    by (metis rev_append rev_rev_ident)
  have "rev t = [] \<or> \<not> isSpace (hd (rev t))"
  proof (cases "rev t = []")
    case True
    then show ?thesis by simp
  next
    case False
    then have "hd d = hd (rev t)" using d_eq by (metis hd_append2)
    moreover have "d \<noteq> []" using False d_eq by auto
    ultimately show ?thesis using d_hd by simp
  qed
  then have a: "dropWhile isSpace (rev t) = rev t" by (rule dropWhile_fix)
  have b: "dropWhile isSpace t = t" unfolding t_def by simp
  show ?thesis unfolding trim_def using a b by (simp add: d_def t_def)
qed

lemma normalize_idem: "trim (toLowerCase (trim (toLowerCase e))) = trim (toLowerCase e)"
  by (simp add: trim_toLowerCase toLowerCase_idem trim_idem)

section \<open>Parsing a feed: five items, RSS before Atom, clean descriptions\<close>

lemma stripTags_open_unclosed:
  "dropWhile (\<lambda>x. x \<noteq> CHR ''>'') cs = [] \<Longrightarrow> stripTags (CHR ''<'' # cs) = CHR ''<'' # stripTags cs"
  by (simp del: dropWhile_eq_Nil_conv)

lemma stripTags_open_closed:
  "dropWhile (\<lambda>x. x \<noteq> CHR ''>'') cs = g # rest \<Longrightarrow> stripTags (CHR ''<'' # cs) = stripTags rest"
  by simp

lemma stripTags_other: "c \<noteq> CHR ''<'' \<Longrightarrow> stripTags (c # cs) = c # stripTags cs"
  by simp

lemma set_stripTags: "set (stripTags s) \<subseteq> set s"
proof (induction s rule: stripTags.induct)
  case 1
  then show ?case by simp
next
  case (2 c cs)
  show ?case
  proof (cases "c = CHR ''<''")
    case True
    show ?thesis
    proof (cases "dropWhile (\<lambda>x. x \<noteq> CHR ''>'') cs")
      case Nil
      have "set (stripTags cs) \<subseteq> set cs" using 2(1) [OF True Nil] .
      then show ?thesis
        unfolding True stripTags_open_unclosed [OF Nil] by auto
    next
      case (Cons g rest)
      then have "set rest \<subseteq> set (dropWhile (\<lambda>x. x \<noteq> CHR ''>'') cs)" by auto
      then have r: "set rest \<subseteq> set cs"
        using set_dropWhileD by fastforce
      have "set (stripTags rest) \<subseteq> set rest" using 2(2) [OF True Cons] .
      then show ?thesis
        unfolding True stripTags_open_closed [OF Cons] using r by auto
    qed
  next
    case False
    have "set (stripTags cs) \<subseteq> set cs" using 2(3) [OF False] .
    then show ?thesis
      unfolding stripTags_other [OF False] by auto
  qed
qed

lemma hasTag_gt: "hasTag s \<Longrightarrow> CHR ''>'' \<in> set s"
  by (induction s) auto

lemma stripTags_clean: "\<not> hasTag (stripTags s)"
proof (induction s rule: stripTags.induct)
  case 1
  then show ?case by simp
next
  case (2 c cs)
  show ?case
  proof (cases "c = CHR ''<''")
    case True
    show ?thesis
    proof (cases "dropWhile (\<lambda>x. x \<noteq> CHR ''>'') cs")
      case Nil
      then have "CHR ''>'' \<notin> set cs"
        by (auto simp: dropWhile_eq_Nil_conv)
      then have no: "CHR ''>'' \<notin> set (stripTags cs)"
        using set_stripTags by blast
      have "\<not> hasTag (stripTags cs)" using 2(1) [OF True Nil] .
      with no show ?thesis
        unfolding True stripTags_open_unclosed [OF Nil] by simp
    next
      case (Cons g rest)
      have "\<not> hasTag (stripTags rest)" using 2(2) [OF True Cons] .
      then show ?thesis
        unfolding True stripTags_open_closed [OF Cons] .
    qed
  next
    case False
    have "\<not> hasTag (stripTags cs)" using 2(3) [OF False] .
    with False show ?thesis
      unfolding stripTags_other [OF False] by simp
  qed
qed

lemma hasTag_take: "hasTag (take n s) \<Longrightarrow> hasTag s"
proof (induction s arbitrary: n)
  case Nil
  then show ?case by simp
next
  case (Cons c cs)
  show ?case
  proof (cases n)
    case 0
    with Cons.prems show ?thesis by simp
  next
    case (Suc m)
    with Cons show ?thesis by (auto dest: in_set_takeD)
  qed
qed

lemma description_clean:
  "\<not> hasTag (take 300 (stripTags s)) \<and> length (take 300 (stripTags s)) \<le> 300"
proof
  show "\<not> hasTag (take 300 (stripTags s))"
    using hasTag_take [of 300 "stripTags s"] stripTags_clean [of s] by blast
  show "length (take 300 (stripTags s)) \<le> 300" by simp
qed

lemma rssArticles_description:
  "a \<in> set (rssArticles feed doc) \<Longrightarrow> \<not> hasTag (description a) \<and> length (description a) \<le> 300"
proof -
  assume "a \<in> set (rssArticles feed doc)"
  then obtain el where "a = articleOfItem feed el"
    unfolding rssArticles_def by auto
  then have "description a = take 300 (stripTags (trim (item_description el)))"
    by (simp add: articleOfItem_def)
  then show ?thesis using description_clean by presburger
qed

lemma atomArticles_description:
  "a \<in> set (atomArticles feed doc) \<Longrightarrow> \<not> hasTag (description a) \<and> length (description a) \<le> 300"
proof -
  assume "a \<in> set (atomArticles feed doc)"
  then obtain el where "a = articleOfEntry feed el"
    unfolding atomArticles_def by auto
  then have "description a = take 300 (stripTags (trim (atom_summary el)))"
    by (simp add: articleOfEntry_def)
  then show ?thesis using description_clean by presburger
qed

lemma length_rssArticles: "length (rssArticles feed doc) \<le> 5"
proof -
  have "length (rssArticles feed doc) \<le> length (take 5 (items doc))"
    unfolding rssArticles_def by (metis length_filter_le length_map)
  then show ?thesis by simp
qed

lemma length_atomArticles: "length (atomArticles feed doc) \<le> 5"
proof -
  have "length (atomArticles feed doc) \<le> length (take 5 (entries doc))"
    unfolding atomArticles_def by (metis length_filter_le length_map)
  then show ?thesis by simp
qed

lemma fetchRSSFeed_xml:
  "fetchRSSFeed feed (FetchXml doc)
   = (if rssArticles feed doc = [] then atomArticles feed doc else rssArticles feed doc)"
  by (simp add: fetchRSSFeed_def Let_def)

lemma rssArticles_explicit:
  "rssArticles feed doc
   = map (\<lambda>el. \<lparr>title = trim (item_title el),
                      link = Some (trim (item_link el)),
                      description = take 300 (stripTags (trim (item_description el))),
                      pubDate = Some (trim (item_pubDate el)),
                      category = (if trim (item_category el) = [] then ''General''
                                  else trim (item_category el)),
                      source = feed_name feed,
                      relevanceScore = None\<rparr>)
           (filter (\<lambda>el. trim (item_title el) \<noteq> []) (take 5 (items doc)))"
  by (simp add: rssArticles_def articleOfItem_def filter_map o_def)

lemma atomArticles_explicit:
  "atomArticles feed doc
   = map (\<lambda>el. \<lparr>title = trim (atom_title el),
                      link = Some (case atom_href el of None \<Rightarrow> [] | Some h \<Rightarrow> h),
                      description = take 300 (stripTags (trim (atom_summary el))),
                      pubDate = Some (trim (atom_published el)),
                      category = ''General'',
                      source = feed_name feed,
                      relevanceScore = None\<rparr>)
           (filter (\<lambda>el. trim (atom_title el) \<noteq> []) (take 5 (entries doc)))"
  by (simp add: atomArticles_def articleOfEntry_def filter_map o_def)

lemma stripTags_no_open: "CHR ''<'' \<notin> set s \<Longrightarrow> stripTags s = s"
  by (induction s) auto

lemma stripTags_no_close: "CHR ''>'' \<notin> set s \<Longrightarrow> stripTags s = s"
proof (induction s)
  case Nil
  then show ?case by simp
next
  case (Cons c cs)
  then have ih: "stripTags cs = cs" by simp
  show ?case
  proof (cases "c = CHR ''<''")
    case True
    have d: "dropWhile (\<lambda>x. x \<noteq> CHR ''>'') cs = []"
      using Cons.prems by (auto simp: dropWhile_eq_Nil_conv)
    show ?thesis
      unfolding True stripTags_open_unclosed [OF d] ih by (rule refl)
  next
    case False
    then show ?thesis using ih by simp
  qed
qed

lemma stripTags_first_tag:
  assumes "CHR ''<'' \<notin> set p" and "CHR ''>'' \<notin> set t"
  shows "stripTags (p @ ''<'' @ t @ ''>'' @ r) = p @ stripTags r"
  using assms(1)
proof (induction p)
  case Nil
  have "dropWhile (\<lambda>x. x \<noteq> CHR ''>'') (t @ CHR ''>'' # r) = CHR ''>'' # r"
    using assms(2) by (induction t) auto
  then have "stripTags (CHR ''<'' # t @ CHR ''>'' # r) = stripTags r"
    by (rule stripTags_open_closed)
  then show ?case by simp
next
  case (Cons c p)
  then have "c \<noteq> CHR ''<''" and ih: "stripTags (p @ ''<'' @ t @ ''>'' @ r) = p @ stripTags r"
    by auto
  then show ?case by simp
qed

text \<open>
  C9. For every fetched feed document the parser looks at the first five
  \<^verbatim>\<open>item\<close> elements only and returns at most five articles; only when no article came
  from them does it read the first five \<^verbatim>\<open>entry\<close> elements instead. The description
  of every parsed article is the trimmed text with every tag removed, cut to 300
  characters: it holds no tag and at most 300 characters. The title of a parsed article
  is the trimmed text, with nothing removed. Removing the tags leaves a text without
  \<^verbatim>\<open><\<close> or without \<^verbatim>\<open>>\<close> as it is, and drops the first tag of any other text.
\<close>

theorem fetchRSSFeed_parses:
  "length (fetchRSSFeed feed response) \<le> 5
   \<and> fetchRSSFeed feed FetchThrows = []
   \<and> fetchRSSFeed feed (FetchStatus status) = []
   \<and> fetchRSSFeed feed (FetchXml doc)
       = (if rssArticles feed doc = [] then atomArticles feed doc else rssArticles feed doc)
   \<and> rssArticles feed doc = rssArticles feed (doc\<lparr>items := take 5 (items doc)\<rparr>)
   \<and> atomArticles feed doc = atomArticles feed (doc\<lparr>entries := take 5 (entries doc)\<rparr>)
   \<and> rssArticles feed doc
       = map (\<lambda>el. \<lparr>title = trim (item_title el),
                      link = Some (trim (item_link el)),
                      description = take 300 (stripTags (trim (item_description el))),
                      pubDate = Some (trim (item_pubDate el)),
                      category = (if trim (item_category el) = [] then ''General''
                                  else trim (item_category el)),
                      source = feed_name feed,
                      relevanceScore = None\<rparr>)
           (filter (\<lambda>el. trim (item_title el) \<noteq> []) (take 5 (items doc)))
   \<and> atomArticles feed doc
       = map (\<lambda>el. \<lparr>title = trim (atom_title el),
                      link = Some (case atom_href el of None \<Rightarrow> [] | Some h \<Rightarrow> h),
                      description = take 300 (stripTags (trim (atom_summary el))),
                      pubDate = Some (trim (atom_published el)),
                      category = ''General'',
                      source = feed_name feed,
                      relevanceScore = None\<rparr>)
           (filter (\<lambda>el. trim (atom_title el) \<noteq> []) (take 5 (entries doc)))
   \<and> (\<forall>a \<in> set (fetchRSSFeed feed response).
         \<not> hasTag (description a) \<and> length (description a) \<le> 300)
   \<and> (CHR ''<'' \<notin> set s \<or> CHR ''>'' \<notin> set s \<longrightarrow> stripTags s = s)
   \<and> (CHR ''<'' \<notin> set p \<and> CHR ''>'' \<notin> set t
        \<longrightarrow> stripTags (p @ ''<'' @ t @ ''>'' @ r) = p @ stripTags r)"
proof -
  have len: "length (fetchRSSFeed feed response) \<le> 5"
    using length_rssArticles length_atomArticles
    by (cases response) (simp_all add: fetchRSSFeed_def Let_def)
  have clean: "\<forall>a \<in> set (fetchRSSFeed feed response).
         \<not> hasTag (description a) \<and> length (description a) \<le> 300"
    using rssArticles_description atomArticles_description
    by (cases response) (auto simp: fetchRSSFeed_def Let_def)
  have none: "fetchRSSFeed feed FetchThrows = []" "fetchRSSFeed feed (FetchStatus status) = []"
    by (simp_all add: fetchRSSFeed_def)
  have five: "rssArticles feed doc = rssArticles feed (doc\<lparr>items := take 5 (items doc)\<rparr>)"
    "atomArticles feed doc = atomArticles feed (doc\<lparr>entries := take 5 (entries doc)\<rparr>)"
    by (simp_all add: rssArticles_def atomArticles_def)
  have strip: "CHR ''<'' \<notin> set s \<or> CHR ''>'' \<notin> set s \<longrightarrow> stripTags s = s"
    using stripTags_no_open stripTags_no_close by blast
  have tag: "CHR ''<'' \<notin> set p \<and> CHR ''>'' \<notin> set t
        \<longrightarrow> stripTags (p @ ''<'' @ t @ ''>'' @ r) = p @ stripTags r"
    using stripTags_first_tag by blast
  show ?thesis
    using len none fetchRSSFeed_xml [of feed doc] five
      rssArticles_explicit [of feed doc] atomArticles_explicit [of feed doc] clean strip tag
    by blast
qed

lemma exampleDocument_parsed:
  "fetchRSSFeed exampleFeed (FetchXml exampleDocument)
   = [\<lparr>title = ''<b>Revival</b> in Detroit'',
       link = Some ''https://example.org/1'',
       description = ''A fresh wave'',
       pubDate = Some ''Mon, 02 Jun 2025 10:00:00 GMT'',
       category = ''General'',
       source = ''Mission Network News'',
       relevanceScore = None\<rparr>]"
  by (simp add: fetchRSSFeed_def rssArticles_def articleOfItem_def exampleDocument_def
      exampleFeed_def Let_def trim_def isSpace_def)

lemma atomDocument_parsed:
  "fetchRSSFeed exampleFeed (FetchXml atomDocument)
   = [\<lparr>title = ''Prayer <em>works</em>'',
       link = Some '' https://example.org/2 '',
       description = ''Churches pray 1 < 2'',
       pubDate = Some ''2025-06-02T10:00:00Z'',
       category = ''General'',
       source = ''Mission Network News'',
       relevanceScore = None\<rparr>]"
  by (simp add: fetchRSSFeed_def rssArticles_def atomArticles_def articleOfItem_def
      articleOfEntry_def atomDocument_def exampleFeed_def Let_def trim_def isSpace_def)

theorem fetchRSSFeed_parses_witness:
  "length (fetchRSSFeed exampleFeed (FetchXml exampleDocument)) = 1
   \<and> hd (fetchRSSFeed exampleFeed (FetchXml exampleDocument))
       \<in> set (fetchRSSFeed exampleFeed (FetchXml exampleDocument))
   \<and> description (hd (fetchRSSFeed exampleFeed (FetchXml exampleDocument))) = ''A fresh wave''
   \<and> \<not> hasTag (description (hd (fetchRSSFeed exampleFeed (FetchXml exampleDocument))))
   \<and> rssArticles exampleFeed atomDocument = []
   \<and> fetchRSSFeed exampleFeed (FetchXml atomDocument)
       = [\<lparr>title = ''Prayer <em>works</em>'',
           link = Some '' https://example.org/2 '',
           description = ''Churches pray 1 < 2'',
           pubDate = Some ''2025-06-02T10:00:00Z'',
           category = ''General'',
           source = ''Mission Network News'',
           relevanceScore = None\<rparr>]
   \<and> CHR ''<'' \<notin> set ''A fresh wave'' \<and> stripTags ''A fresh wave'' = ''A fresh wave''
   \<and> CHR ''<'' \<notin> set ''A '' \<and> CHR ''>'' \<notin> set ''i''
   \<and> stripTags (''A '' @ ''<'' @ ''i'' @ ''>'' @ ''fresh</i> wave'') = ''A fresh wave''"
proof -
  note ex = fetchRSSFeed_parses [of exampleFeed "FetchXml exampleDocument" _ exampleDocument
      "''A fresh wave''" "''A ''" "''i''" "''fresh</i> wave''"]
  note at = fetchRSSFeed_parses [of exampleFeed "FetchXml atomDocument" _ atomDocument
      "''fresh wave''" "''fresh''" "''/i''" "'' wave''"]
  have mem: "hd (fetchRSSFeed exampleFeed (FetchXml exampleDocument))
          \<in> set (fetchRSSFeed exampleFeed (FetchXml exampleDocument))"
    by (simp add: exampleDocument_parsed)
  then have clean: "\<not> hasTag (description (hd (fetchRSSFeed exampleFeed (FetchXml exampleDocument))))"
    using ex by blast
  have noRss: "rssArticles exampleFeed atomDocument = []"
    by (simp add: rssArticles_def articleOfItem_def atomDocument_def trim_def isSpace_def)
  have "fetchRSSFeed exampleFeed (FetchXml atomDocument) = atomArticles exampleFeed atomDocument"
    using at noRss by simp
  then have atom: "fetchRSSFeed exampleFeed (FetchXml atomDocument)
       = [\<lparr>title = ''Prayer <em>works</em>'',
           link = Some '' https://example.org/2 '',
           description = ''Churches pray 1 < 2'',
           pubDate = Some ''2025-06-02T10:00:00Z'',
           category = ''General'',
           source = ''Mission Network News'',
           relevanceScore = None\<rparr>]"
    by (simp add: atomDocument_parsed)
  have s1: "stripTags ''A fresh wave'' = ''A fresh wave''"
    using ex by simp
  have s2: "stripTags ''fresh wave'' = ''fresh wave''"
    using at by simp
  have s3: "stripTags (''fresh'' @ ''<'' @ ''/i'' @ ''>'' @ '' wave'') = ''fresh'' @ stripTags '' wave''"
    using at by simp
  have s4: "stripTags '' wave'' = '' wave''"
    by simp
  have "stripTags (''A '' @ ''<'' @ ''i'' @ ''>'' @ ''fresh</i> wave'')
        = ''A '' @ stripTags ''fresh</i> wave''"
    using ex by simp
  then have s5: "stripTags (''A '' @ ''<'' @ ''i'' @ ''>'' @ ''fresh</i> wave'') = ''A fresh wave''"
    using s3 s4 by simp
  show ?thesis
    using mem clean noRss atom s1 s5 by (simp add: exampleDocument_parsed)
qed

text \<open>
  The title of a parsed article is a text field that is trimmed and nothing more: markup
  in it stays.
\<close>

theorem fetchRSSFeed_title_counterexample:
  "title (hd (fetchRSSFeed exampleFeed (FetchXml exampleDocument))) = ''<b>Revival</b> in Detroit''
   \<and> hasTag (title (hd (fetchRSSFeed exampleFeed (FetchXml exampleDocument))))"
  by (simp add: exampleDocument_parsed)

section \<open>Relevance scores, the relevant articles and their order\<close>








lemma scoreValue_scored: "scoreValue (a\<lparr>relevanceScore := Some n\<rparr>) = n"
  by (simp add: scoreValue_def)
















section \<open>Gathering: live articles or the fallback of the month\<close>

lemma length_concat_nonempty:
  "length (concat (filter (\<lambda>v. 0 < length v) xs)) = sum_list (map length xs)"
  by (induction xs) auto

lemma length_gatherWebContent:
  "length (gatherWebContent web)
   = sum_list (map (\<lambda>feed. length (fetchRSSFeed feed (web (url feed)))) rssFeeds)"
proof -
  have "length (gatherWebContent web)
        = sum_list (map length (map (\<lambda>feed. fetchRSSFeed feed (web (url feed))) rssFeeds))"
    unfolding gatherWebContent_def by (rule length_concat_nonempty)
  then show ?thesis by (simp add: comp_def)
qed

lemma isFallback_categorized:
  "isFallback ((categorizeContent articles)\<lparr>isFallback := Some False\<rparr>) = Some False"
  by simp

lemma monthlyTheme_categorized:
  "monthlyTheme ((categorizeContent articles)\<lparr>isFallback := Some False\<rparr>) = None"
  by (simp add: categorizeContent_def Let_def)

lemma monthlyTheme_fallback: "monthlyTheme (getFallbackContent m) = Some (currentTheme m)"
  by (simp add: getFallbackContent_def)

lemma isFallback_fallback: "isFallback (getFallbackContent m) = Some True"
  by (simp add: getFallbackContent_def)

lemma gatherContent_no_articles:
  "length (gatherWebContent web) = 0 \<Longrightarrow>
   gatherContent m y web now
   = (getFallbackContent m)
       \<lparr>gather_metadata :=
          Some \<lparr>gather_month = m, gather_year = y, gatheredAt = now,
                 articleCount = 0, usedFallback = True\<rparr>\<rparr>"
  by (simp add: gatherContent_def Let_def monthlyTheme_fallback isFallback_fallback)

lemma gatherContent_some_articles:
  "0 < length (gatherWebContent web) \<Longrightarrow>
   gatherContent m y web now
   = (categorizeContent (gatherWebContent web))
       \<lparr>isFallback := Some False,
        monthlyTheme := Some (currentTheme m),
        gather_metadata :=
          Some \<lparr>gather_month = m, gather_year = y, gatheredAt = now,
                 articleCount = length (gatherWebContent web), usedFallback = False\<rparr>\<rparr>"
  by (simp add: gatherContent_def Let_def monthlyTheme_fallback categorizeContent_def)

lemma currentTheme_table:
  "currentTheme m
   = [\<lparr>theme = ''New Kingdom Beginnings'',
        focus = ''Starting the year under Kingdom authority''\<rparr>,
      \<lparr>theme = ''Kingdom Love'', focus = ''The radical, sacrificial love of King Jesus''\<rparr>,
      \<lparr>theme = ''Kingdom Advancement'',
        focus = ''Pressing forward into new territory for the King''\<rparr>,
      \<lparr>theme = ''Resurrection Power'', focus = ''Living in the power of the risen Christ''\<rparr>,
      \<lparr>theme = ''Kingdom Mothers'',
        focus = ''Raising the next generation of Kingdom citizens''\<rparr>,
      \<lparr>theme = ''Kingdom Fathers'', focus = ''Fatherhood as Kingdom leadership''\<rparr>,
      \<lparr>theme = ''Kingdom Freedom'', focus = ''True freedom under the reign of Christ''\<rparr>,
      \<lparr>theme = ''Kingdom Education'', focus = ''Developing a Kingdom worldview''\<rparr>,
      \<lparr>theme = ''Kingdom Harvest'',
        focus = ''The harvest is plentiful - laboring for the Kingdom''\<rparr>,
      \<lparr>theme = ''Kingdom Authority'',
        focus = ''Walking in the authority Christ delegated to His Church''\<rparr>,
      \<lparr>theme = ''Kingdom Gratitude'', focus = ''Thanksgiving as a Kingdom discipline''\<rparr>,
      \<lparr>theme = ''The King Has Come'',
        focus = ''Advent - celebrating the arrival of the King''\<rparr>]
     ! (if 1 \<le> m \<and> m \<le> 12 then m - 1 else 0)"
proof -
  have "m = 0 \<or> m = 1 \<or> m = 2 \<or> m = 3 \<or> m = 4 \<or> m = 5 \<or> m = 6 \<or> m = 7
    \<or> m = 8 \<or> m = 9 \<or> m = 10 \<or> m = 11 \<or> m = 12 \<or> 12 < m"
    by (simp add: eval_nat_numeral) arith
  then consider "m = 0" | "m = 1" | "m = 2" | "m = 3" | "m = 4" | "m = 5" | "m = 6" | "m = 7"
    | "m = 8" | "m = 9" | "m = 10" | "m = 11" | "m = 12" | "12 < m"
    by blast
  then show ?thesis
    by cases (simp_all add: currentTheme_def monthlyThemes_def)
qed

lemma monthlyTheme_gatherContent:
  "monthlyTheme (gatherContent m y web now) = Some (currentTheme m)"
  by (simp add: gatherContent_def Let_def monthlyTheme_fallback categorizeContent_def)

lemma fallbackStories_titles:
  "map title fallbackStories
   = [''Underground Church Growth Continues in Restricted Nations'',
      ''Church Planting Movements Accelerate Across Global South'',
      ''Christians Making Impact in Business and Marketplace'',
      ''Global Prayer Movement Intensifies'',
      ''Youth Revival Sweeping College Campuses'',
      ''Christian Education Initiatives Transforming Communities'']"
  by (simp add: fallbackStories_def fallbackStory_def)

lemma rssFeeds_urls:
  "map url rssFeeds
   = [''https://www.christianitytoday.com/feed/'', ''https://www.desiringgod.org/feeds/all'',
      ''https://www.thegospelcoalition.org/feed/'', ''https://www.mnnonline.org/feed/'',
      ''https://www.persecution.org/feed/'']"
  by (simp add: rssFeeds_def)

lemma gatherContent_by_count:
  assumes "length (gatherWebContent web) = n"
  shows
  "isFallback (gatherContent m y web now)
     = Some (n = 0)
   \<and> map url rssFeeds
       = [''https://www.christianitytoday.com/feed/'', ''https://www.desiringgod.org/feeds/all'',
          ''https://www.thegospelcoalition.org/feed/'', ''https://www.mnnonline.org/feed/'',
          ''https://www.persecution.org/feed/'']
   \<and> (n = 0
        \<longrightarrow> topStories (gatherContent m y web now) = fallbackStories
            \<and> missionNews (gatherContent m y web now) = [fallbackStories ! 1]
            \<and> persecutionUpdates (gatherContent m y web now) = [fallbackStories ! 0]
            \<and> revivalReports (gatherContent m y web now) = [fallbackStories ! 4]
            \<and> cultureInfluence (gatherContent m y web now)
                = [fallbackStories ! 2, fallbackStories ! 5])
   \<and> map title fallbackStories
       = [''Underground Church Growth Continues in Restricted Nations'',
          ''Church Planting Movements Accelerate Across Global South'',
          ''Christians Making Impact in Business and Marketplace'',
          ''Global Prayer Movement Intensifies'',
          ''Youth Revival Sweeping College Campuses'',
          ''Christian Education Initiatives Transforming Communities'']
   \<and> gather_metadata (gatherContent m y web now)
       = Some \<lparr>gather_month = m, gather_year = y, gatheredAt = now,
                articleCount
                  = n,
                usedFallback
                  = (n
                     = 0)\<rparr>
   \<and> monthlyTheme (gatherContent m y web now)
       = Some
          ([\<lparr>theme = ''New Kingdom Beginnings'',
              focus = ''Starting the year under Kingdom authority''\<rparr>,
            \<lparr>theme = ''Kingdom Love'',
              focus = ''The radical, sacrificial love of King Jesus''\<rparr>,
            \<lparr>theme = ''Kingdom Advancement'',
              focus = ''Pressing forward into new territory for the King''\<rparr>,
            \<lparr>theme = ''Resurrection Power'',
              focus = ''Living in the power of the risen Christ''\<rparr>,
            \<lparr>theme = ''Kingdom Mothers'',
              focus = ''Raising the next generation of Kingdom citizens''\<rparr>,
            \<lparr>theme = ''Kingdom Fathers'', focus = ''Fatherhood as Kingdom leadership''\<rparr>,
            \<lparr>theme = ''Kingdom Freedom'', focus = ''True freedom under the reign of Christ''\<rparr>,
            \<lparr>theme = ''Kingdom Education'', focus = ''Developing a Kingdom worldview''\<rparr>,
            \<lparr>theme = ''Kingdom Harvest'',
              focus = ''The harvest is plentiful - laboring for the Kingdom''\<rparr>,
            \<lparr>theme = ''Kingdom Authority'',
              focus = ''Walking in the authority Christ delegated to His Church''\<rparr>,
            \<lparr>theme = ''Kingdom Gratitude'', focus = ''Thanksgiving as a Kingdom discipline''\<rparr>,
            \<lparr>theme = ''The King Has Come'',
              focus = ''Advent - celebrating the arrival of the King''\<rparr>]
           ! (if 1 \<le> m \<and> m \<le> 12 then m - 1 else 0))
   \<and> (0 < n
        \<longrightarrow> isFallback (gatherContent m y web now) = Some False
            \<and> topStories (gatherContent m y web now)
                = take 6 (relevantArticles (gatherWebContent web)))"
proof -
  have t: "monthlyTheme (gatherContent m y web now) = Some (currentTheme m)"
    by (rule monthlyTheme_gatherContent)
  show ?thesis
  proof (cases "n = 0")
    case True
    with assms have z: "length (gatherWebContent web) = 0" by simp
    have e: "gatherContent m y web now
       = (getFallbackContent m)
           \<lparr>gather_metadata :=
              Some \<lparr>gather_month = m, gather_year = y, gatheredAt = now,
                     articleCount = 0, usedFallback = True\<rparr>\<rparr>"
      using z by (rule gatherContent_no_articles)
    show ?thesis
      unfolding t currentTheme_table [symmetric] rssFeeds_urls fallbackStories_titles
      unfolding e using True by (simp add: getFallbackContent_def)
  next
    case False
    with assms have pos: "0 < length (gatherWebContent web)" by simp
    have e: "gatherContent m y web now
     = (categorizeContent (gatherWebContent web))
         \<lparr>isFallback := Some False,
          monthlyTheme := Some (currentTheme m),
          gather_metadata :=
            Some \<lparr>gather_month = m, gather_year = y, gatheredAt = now,
                   articleCount = length (gatherWebContent web), usedFallback = False\<rparr>\<rparr>"
      using pos by (rule gatherContent_some_articles)
    show ?thesis
      unfolding t currentTheme_table [symmetric] rssFeeds_urls fallbackStories_titles
      unfolding e using False assms by (simp add: categorizeContent_def Let_def)
  qed
qed

text \<open>
  C2. Whatever each of the five feed fetches meets (a rejected fetch, a response that is
  not ok, a document with or without articles), \<^verbatim>\<open>gatherContent\<close> returns a content
  value. Its \<^verbatim>\<open>isFallback\<close> flag is true exactly when the number of articles gathered
  over the five feeds is 0; the result then holds the six curated stories in their four
  buckets. The monthly theme of the result is the entry of the month in the table of
  twelve themes (the entry of January for a month outside 1 to 12), so for month 12 it
  is The King Has Come. When at least one article is gathered the flag is false and the
  top stories are the first six relevant articles.
\<close>

theorem gatherContent_fallback_iff_no_articles:
  "isFallback (gatherContent m y web now)
     = Some (sum_list (map (\<lambda>feed. length (fetchRSSFeed feed (web (url feed)))) rssFeeds) = 0)
   \<and> map url rssFeeds
       = [''https://www.christianitytoday.com/feed/'', ''https://www.desiringgod.org/feeds/all'',
          ''https://www.thegospelcoalition.org/feed/'', ''https://www.mnnonline.org/feed/'',
          ''https://www.persecution.org/feed/'']
   \<and> (sum_list (map (\<lambda>feed. length (fetchRSSFeed feed (web (url feed)))) rssFeeds) = 0
        \<longrightarrow> topStories (gatherContent m y web now) = fallbackStories
            \<and> missionNews (gatherContent m y web now) = [fallbackStories ! 1]
            \<and> persecutionUpdates (gatherContent m y web now) = [fallbackStories ! 0]
            \<and> revivalReports (gatherContent m y web now) = [fallbackStories ! 4]
            \<and> cultureInfluence (gatherContent m y web now)
                = [fallbackStories ! 2, fallbackStories ! 5])
   \<and> map title fallbackStories
       = [''Underground Church Growth Continues in Restricted Nations'',
          ''Church Planting Movements Accelerate Across Global South'',
          ''Christians Making Impact in Business and Marketplace'',
          ''Global Prayer Movement Intensifies'',
          ''Youth Revival Sweeping College Campuses'',
          ''Christian Education Initiatives Transforming Communities'']
   \<and> gather_metadata (gatherContent m y web now)
       = Some \<lparr>gather_month = m, gather_year = y, gatheredAt = now,
                articleCount
                  = sum_list (map (\<lambda>feed. length (fetchRSSFeed feed (web (url feed)))) rssFeeds),
                usedFallback
                  = (sum_list (map (\<lambda>feed. length (fetchRSSFeed feed (web (url feed)))) rssFeeds)
                     = 0)\<rparr>
   \<and> monthlyTheme (gatherContent m y web now)
       = Some
          ([\<lparr>theme = ''New Kingdom Beginnings'',
              focus = ''Starting the year under Kingdom authority''\<rparr>,
            \<lparr>theme = ''Kingdom Love'',
              focus = ''The radical, sacrificial love of King Jesus''\<rparr>,
            \<lparr>theme = ''Kingdom Advancement'',
              focus = ''Pressing forward into new territory for the King''\<rparr>,
            \<lparr>theme = ''Resurrection Power'',
              focus = ''Living in the power of the risen Christ''\<rparr>,
            \<lparr>theme = ''Kingdom Mothers'',
              focus = ''Raising the next generation of Kingdom citizens''\<rparr>,
            \<lparr>theme = ''Kingdom Fathers'', focus = ''Fatherhood as Kingdom leadership''\<rparr>,
            \<lparr>theme = ''Kingdom Freedom'', focus = ''True freedom under the reign of Christ''\<rparr>,
            \<lparr>theme = ''Kingdom Education'', focus = ''Developing a Kingdom worldview''\<rparr>,
            \<lparr>theme = ''Kingdom Harvest'',
              focus = ''The harvest is plentiful - laboring for the Kingdom''\<rparr>,
            \<lparr>theme = ''Kingdom Authority'',
              focus = ''Walking in the authority Christ delegated to His Church''\<rparr>,
            \<lparr>theme = ''Kingdom Gratitude'', focus = ''Thanksgiving as a Kingdom discipline''\<rparr>,
            \<lparr>theme = ''The King Has Come'',
              focus = ''Advent - celebrating the arrival of the King''\<rparr>]
           ! (if 1 \<le> m \<and> m \<le> 12 then m - 1 else 0))
   \<and> (0 < sum_list (map (\<lambda>feed. length (fetchRSSFeed feed (web (url feed)))) rssFeeds)
        \<longrightarrow> isFallback (gatherContent m y web now) = Some False
            \<and> topStories (gatherContent m y web now)
                = take 6 (relevantArticles (gatherWebContent web)))"
  by (rule gatherContent_by_count [OF length_gatherWebContent])

lemma fetchRSSFeed_throws: "fetchRSSFeed feed FetchThrows = []"
  by (simp add: fetchRSSFeed_def)

lemma all_feeds_down:
  "sum_list (map (\<lambda>feed. length (fetchRSSFeed feed ((\<lambda>u. FetchThrows) (url feed)))) rssFeeds) = 0"
  by (simp add: fetchRSSFeed_throws)

lemma one_feed_up:
  "sum_list (map (\<lambda>feed. length (fetchRSSFeed feed (oneFeedUp (url feed)))) rssFeeds) = 1"
proof -
  have "fetchRSSFeed exampleFeed (FetchXml exampleDocument) \<noteq> []"
    by (simp add: exampleDocument_parsed)
  have "length (fetchRSSFeed exampleFeed (FetchXml exampleDocument)) = 1"
    by (simp add: exampleDocument_parsed)
  then show ?thesis
    by (simp add: rssFeeds_def oneFeedUp_def fetchRSSFeed_throws exampleFeed_def)
qed

theorem gatherContent_fallback_iff_no_articles_witness:
  "sum_list (map (\<lambda>feed. length (fetchRSSFeed feed ((\<lambda>u. FetchThrows) (url feed)))) rssFeeds) = 0
   \<and> isFallback (gatherContent 12 2025 (\<lambda>u. FetchThrows) ''2025-12-01T08:00:00.000Z'') = Some True
   \<and> monthlyTheme (gatherContent 12 2025 (\<lambda>u. FetchThrows) ''2025-12-01T08:00:00.000Z'')
       = Some \<lparr>theme = ''The King Has Come'',
                focus = ''Advent - celebrating the arrival of the King''\<rparr>
   \<and> map title (topStories (gatherContent 12 2025 (\<lambda>u. FetchThrows) ''2025-12-01T08:00:00.000Z''))
       = [''Underground Church Growth Continues in Restricted Nations'',
          ''Church Planting Movements Accelerate Across Global South'',
          ''Christians Making Impact in Business and Marketplace'',
          ''Global Prayer Movement Intensifies'',
          ''Youth Revival Sweeping College Campuses'',
          ''Christian Education Initiatives Transforming Communities'']
   \<and> 0 < sum_list (map (\<lambda>feed. length (fetchRSSFeed feed (oneFeedUp (url feed)))) rssFeeds)
   \<and> isFallback (gatherContent 6 2025 oneFeedUp ''2025-06-01T08:00:00.000Z'') = Some False
   \<and> monthlyTheme (gatherContent 6 2025 oneFeedUp ''2025-06-01T08:00:00.000Z'')
       = Some \<lparr>theme = ''Kingdom Fathers'', focus = ''Fatherhood as Kingdom leadership''\<rparr>"
proof -
  note down = gatherContent_fallback_iff_no_articles
      [of 12 2025 "\<lambda>u. FetchThrows" "''2025-12-01T08:00:00.000Z''"]
  note up = gatherContent_fallback_iff_no_articles
      [of 6 2025 oneFeedUp "''2025-06-01T08:00:00.000Z''"]
  have a: "isFallback (gatherContent 12 2025 (\<lambda>u. FetchThrows) ''2025-12-01T08:00:00.000Z'')
           = Some True"
    using down all_feeds_down by simp
  have b: "monthlyTheme (gatherContent 12 2025 (\<lambda>u. FetchThrows) ''2025-12-01T08:00:00.000Z'')
       = Some \<lparr>theme = ''The King Has Come'',
                focus = ''Advent - celebrating the arrival of the King''\<rparr>"
    using down by simp
  have c: "topStories (gatherContent 12 2025 (\<lambda>u. FetchThrows) ''2025-12-01T08:00:00.000Z'')
           = fallbackStories"
    using down all_feeds_down by simp
  have d: "isFallback (gatherContent 6 2025 oneFeedUp ''2025-06-01T08:00:00.000Z'') = Some False"
    using up one_feed_up by simp
  have e: "monthlyTheme (gatherContent 6 2025 oneFeedUp ''2025-06-01T08:00:00.000Z'')
       = Some \<lparr>theme = ''Kingdom Fathers'', focus = ''Fatherhood as Kingdom leadership''\<rparr>"
    using up by simp
  show ?thesis
    using a b c d e all_feeds_down one_feed_up fallbackStories_titles by simp
qed

section \<open>Publishing replaces the archive entry of the month\<close>




















section \<open>Retries of the completion call and all-or-nothing generation\<close>



lemma groqAttempts_failure:
  "attempt \<le> maxRetries \<Longrightarrow> completionOf (api (calls st)) = None \<Longrightarrow>
   groqAttempts api attempt lastError st
   = groqAttempts api (attempt + 1) (errorMessage (api (calls st))) (afterFailure attempt st)"
  by (subst groqAttempts.simps) simp













lemma andThen_Inl: "andThen (Inl e, st) f = (Inl e, st)"
  by (simp add: andThen_def)

lemma andThen_Inr: "andThen (Inr v, st) f = f v st"
  by (simp add: andThen_def)

lemma andThen_assoc_cons:
  "andThen (andThen r (\<lambda>texts st2. (Inr (g texts), st2))) k
   = andThen r (\<lambda>texts st2. k (g texts) st2)"
  by (cases r) (auto simp: andThen_def split: sum.splits)

lemma callsInSequence_six:
  "andThen (callsInSequence 6 keySet api st) k
   = andThen (callGroqAI keySet api st) (\<lambda>t1 st.
     andThen (callGroqAI keySet api st) (\<lambda>t2 st.
     andThen (callGroqAI keySet api st) (\<lambda>t3 st.
     andThen (callGroqAI keySet api st) (\<lambda>t4 st.
     andThen (callGroqAI keySet api st) (\<lambda>t5 st.
     andThen (callGroqAI keySet api st) (\<lambda>t6 st.
       k [t1, t2, t3, t4, t5, t6] st))))))"
proof -
  have step: "andThen (callsInSequence (Suc n) keySet api st) k
      = andThen (callGroqAI keySet api st) (\<lambda>t st1.
          andThen (callsInSequence n keySet api st1) (\<lambda>ts st2. k (t # ts) st2))"
    for n st and k :: "string list \<Rightarrow> groq_state \<Rightarrow> (js_error + 'b) \<times> groq_state"
    by (cases "callGroqAI keySet api st")
      (auto simp: andThen_def split: sum.splits prod.splits)
  have zero: "andThen (callsInSequence 0 keySet api st) k = k [] st"
    for st and k :: "string list \<Rightarrow> groq_state \<Rightarrow> (js_error + 'b) \<times> groq_state"
    by (simp add: andThen_def)
  have six: "(6::nat) = Suc (Suc (Suc (Suc (Suc (Suc 0)))))" by simp
  show ?thesis
    unfolding six by (simp only: step zero)
qed

lemma generateNewsletter_sequence:
  "validDate y m \<Longrightarrow>
   generateNewsletter c m y keySet api now st
   = andThen (callsInSequence 6 keySet api st)
       (\<lambda>texts st'. (Inr (assembleNewsletter c m y now texts), st'))"
  unfolding callsInSequence_six by (simp add: generateNewsletter_def)

text \<open>A newsletter that \<^verbatim>\<open>generateNewsletter\<close> returns carries a month and year that form a date.\<close>

lemma generateNewsletter_valid_date:
  assumes "generateNewsletter c m y keySet api now st = (Inr nl, st')"
  shows "validDate (year (metadata nl)) (month (metadata nl))"
proof -
  have v: "validDate y m"
    using assms by (cases "validDate y m") (simp_all add: generateNewsletter_def)
  then have "andThen (callsInSequence 6 keySet api st)
          (\<lambda>texts st'. (Inr (assembleNewsletter c m y now texts), st')) = (Inr nl, st')"
    using assms by (simp add: generateNewsletter_sequence)
  then obtain texts where "nl = assembleNewsletter c m y now texts"
    by (auto simp: andThen_def split: sum.splits prod.splits)
  then have "year (metadata nl) = y" "month (metadata nl) = m"
    by (simp_all add: assembleNewsletter_def)
  with v show ?thesis by simp
qed

lemma callsInSequence_length:
  "callsInSequence n keySet api st = (Inr texts, st') \<Longrightarrow> length texts = n"
proof (induction n arbitrary: st texts)
  case 0
  then show ?case by simp
next
  case (Suc n)
  then show ?case
    by (auto simp: andThen_def split: sum.splits prod.splits)
qed

lemma callsInSequence_abort:
  "callsInSequence k keySet api st = (Inr texts, st1) \<Longrightarrow>
   callGroqAI keySet api st1 = (Inl e, st2) \<Longrightarrow> k < n \<Longrightarrow>
   callsInSequence n keySet api st = (Inl e, st2)"
proof (induction k arbitrary: n st texts)
  case 0
  then obtain n' where "n = Suc n'" by (cases n) auto
  with 0 show ?case by (simp add: andThen_def)
next
  case (Suc k)
  then obtain n' where n: "n = Suc n'" and lt: "k < n'" by (cases n) auto
  from Suc.prems(1) obtain t s ts where
    c: "callGroqAI keySet api st = (Inr t, s)" and r: "callsInSequence k keySet api s = (Inr ts, st1)"
    by (auto simp: andThen_def split: sum.splits prod.splits)
  have "callsInSequence n' keySet api s = (Inl e, st2)"
    using Suc.IH [OF r Suc.prems(2) lt] .
  with c n show ?case by (simp add: andThen_def)
qed















section \<open>Deduplication of subscribers\<close>

text \<open>The loop without its accumulator: what is appended to \<open>unique\<close>.\<close>

fun dedupFrom :: "string set \<Rightarrow> subscriber list \<Rightarrow> subscriber list" where
  "dedupFrom seen [] = []"
| "dedupFrom seen (sub # rest) =
     (if trim (toLowerCase (email sub)) \<notin> seen
      then sub\<lparr>email := trim (toLowerCase (email sub))\<rparr>
             # dedupFrom (insert (trim (toLowerCase (email sub))) seen) rest
      else dedupFrom seen rest)"

lemma dedupLoop_dedupFrom: "dedupLoop seen unique xs = unique @ dedupFrom seen xs"
  by (induction xs arbitrary: seen unique) (simp_all add: Let_def)

lemma deduplicateSubscribers_dedupFrom: "deduplicateSubscribers xs = dedupFrom {} xs"
  by (simp add: deduplicateSubscribers_def dedupLoop_dedupFrom)

lemma dedupFrom_emails:
  "email ` set (dedupFrom seen xs) = ((\<lambda>s. trim (toLowerCase (email s))) ` set xs) - seen"
  by (induction xs arbitrary: seen) auto

lemma dedupFrom_distinct: "distinct (map email (dedupFrom seen xs))"
proof (induction xs arbitrary: seen)
  case Nil
  then show ?case by simp
next
  case (Cons sub rest)
  have "trim (toLowerCase (email sub))
          \<notin> email ` set (dedupFrom (insert (trim (toLowerCase (email sub))) seen) rest)"
    by (simp add: dedupFrom_emails)
  with Cons show ?case by simp
qed

lemma dedupFrom_fixed:
  "\<forall>y \<in> set ys. trim (toLowerCase (email y)) = email y \<Longrightarrow> distinct (map email ys) \<Longrightarrow>
   email ` set ys \<inter> seen = {} \<Longrightarrow> dedupFrom seen ys = ys"
  by (induction ys arbitrary: seen) auto

lemma dedupFrom_normalized:
  "y \<in> set (dedupFrom seen xs) \<Longrightarrow> trim (toLowerCase (email y)) = email y"
  by (induction xs arbitrary: seen) (auto simp: normalize_idem split: if_splits)

lemma distinct_filter_one:
  "distinct (map f ys) \<Longrightarrow> k \<in> f ` set ys \<Longrightarrow> length (filter (\<lambda>s. f s = k) ys) = 1"
proof (induction ys)
  case Nil
  then show ?case by simp
next
  case (Cons y ys)
  show ?case
  proof (cases "f y = k")
    case True
    with Cons.prems(1) have "k \<notin> f ` set ys" by simp
    then have "filter (\<lambda>s. f s = k) ys = []" unfolding filter_empty_conv by blast
    with True show ?thesis by simp
  next
    case False
    with Cons show ?thesis by auto
  qed
qed

lemma toLowerChar_pair:
  assumes "(p, q) \<in> set (zip (''ABCDEFGHIJKLMNOPQRSTUVWXYZ'' @
          [CHR 0xC0, CHR 0xC1, CHR 0xC2, CHR 0xC3, CHR 0xC4, CHR 0xC5, CHR 0xC6, CHR 0xC7,
           CHR 0xC8, CHR 0xC9, CHR 0xCA, CHR 0xCB, CHR 0xCC, CHR 0xCD, CHR 0xCE, CHR 0xCF,
           CHR 0xD0, CHR 0xD1, CHR 0xD2, CHR 0xD3, CHR 0xD4, CHR 0xD5, CHR 0xD6, CHR 0xD8,
           CHR 0xD9, CHR 0xDA, CHR 0xDB, CHR 0xDC, CHR 0xDD, CHR 0xDE])
     (''abcdefghijklmnopqrstuvwxyz'' @
          [CHR 0xE0, CHR 0xE1, CHR 0xE2, CHR 0xE3, CHR 0xE4, CHR 0xE5, CHR 0xE6, CHR 0xE7,
           CHR 0xE8, CHR 0xE9, CHR 0xEA, CHR 0xEB, CHR 0xEC, CHR 0xED, CHR 0xEE, CHR 0xEF,
           CHR 0xF0, CHR 0xF1, CHR 0xF2, CHR 0xF3, CHR 0xF4, CHR 0xF5, CHR 0xF6, CHR 0xF8,
           CHR 0xF9, CHR 0xFA, CHR 0xFB, CHR 0xFC, CHR 0xFD, CHR 0xFE]))"
  shows "toLowerChar p = q \<and> toLowerChar q = q"
proof -
  have "(p, q) \<in> set (zip (''ABCDEFGHIJKLMNOPQRSTUVWXYZ'' @
          [CHR 0xC0, CHR 0xC1, CHR 0xC2, CHR 0xC3, CHR 0xC4, CHR 0xC5, CHR 0xC6, CHR 0xC7,
           CHR 0xC8, CHR 0xC9, CHR 0xCA, CHR 0xCB, CHR 0xCC, CHR 0xCD, CHR 0xCE, CHR 0xCF,
           CHR 0xD0, CHR 0xD1, CHR 0xD2, CHR 0xD3, CHR 0xD4, CHR 0xD5, CHR 0xD6, CHR 0xD8,
           CHR 0xD9, CHR 0xDA, CHR 0xDB, CHR 0xDC, CHR 0xDD, CHR 0xDE])
     (''abcdefghijklmnopqrstuvwxyz'' @
          [CHR 0xE0, CHR 0xE1, CHR 0xE2, CHR 0xE3, CHR 0xE4, CHR 0xE5, CHR 0xE6, CHR 0xE7,
           CHR 0xE8, CHR 0xE9, CHR 0xEA, CHR 0xEB, CHR 0xEC, CHR 0xED, CHR 0xEE, CHR 0xEF,
           CHR 0xF0, CHR 0xF1, CHR 0xF2, CHR 0xF3, CHR 0xF4, CHR 0xF5, CHR 0xF6, CHR 0xF8,
           CHR 0xF9, CHR 0xFA, CHR 0xFB, CHR 0xFC, CHR 0xFD, CHR 0xFE])) \<longrightarrow> toLowerChar p = q \<and> toLowerChar q = q"
    unfolding toLowerChar_def by (simp split: if_splits)
  with assms show ?thesis by blast
qed

lemma toLowerChar_table:
  "map toLowerChar (''ABCDEFGHIJKLMNOPQRSTUVWXYZ'' @
          [CHR 0xC0, CHR 0xC1, CHR 0xC2, CHR 0xC3, CHR 0xC4, CHR 0xC5, CHR 0xC6, CHR 0xC7,
           CHR 0xC8, CHR 0xC9, CHR 0xCA, CHR 0xCB, CHR 0xCC, CHR 0xCD, CHR 0xCE, CHR 0xCF,
           CHR 0xD0, CHR 0xD1, CHR 0xD2, CHR 0xD3, CHR 0xD4, CHR 0xD5, CHR 0xD6, CHR 0xD8,
           CHR 0xD9, CHR 0xDA, CHR 0xDB, CHR 0xDC, CHR 0xDD, CHR 0xDE])
   = (''abcdefghijklmnopqrstuvwxyz'' @
          [CHR 0xE0, CHR 0xE1, CHR 0xE2, CHR 0xE3, CHR 0xE4, CHR 0xE5, CHR 0xE6, CHR 0xE7,
           CHR 0xE8, CHR 0xE9, CHR 0xEA, CHR 0xEB, CHR 0xEC, CHR 0xED, CHR 0xEE, CHR 0xEF,
           CHR 0xF0, CHR 0xF1, CHR 0xF2, CHR 0xF3, CHR 0xF4, CHR 0xF5, CHR 0xF6, CHR 0xF8,
           CHR 0xF9, CHR 0xFA, CHR 0xFB, CHR 0xFC, CHR 0xFD, CHR 0xFE])"
  by (simp add: toLowerChar_def)

lemma toLowerChar_other:
  "c \<notin> set (''ABCDEFGHIJKLMNOPQRSTUVWXYZ'' @
          [CHR 0xC0, CHR 0xC1, CHR 0xC2, CHR 0xC3, CHR 0xC4, CHR 0xC5, CHR 0xC6, CHR 0xC7,
           CHR 0xC8, CHR 0xC9, CHR 0xCA, CHR 0xCB, CHR 0xCC, CHR 0xCD, CHR 0xCE, CHR 0xCF,
           CHR 0xD0, CHR 0xD1, CHR 0xD2, CHR 0xD3, CHR 0xD4, CHR 0xD5, CHR 0xD6, CHR 0xD8,
           CHR 0xD9, CHR 0xDA, CHR 0xDB, CHR 0xDC, CHR 0xDD, CHR 0xDE]) \<Longrightarrow> toLowerChar c = c"
  unfolding toLowerChar_def by (simp split: if_splits)

lemma toLowerCase_case_pairs:
  assumes "list_all2 (\<lambda>p q. p = q
          \<or> (p, q) \<in> set (zip (''ABCDEFGHIJKLMNOPQRSTUVWXYZ'' @
          [CHR 0xC0, CHR 0xC1, CHR 0xC2, CHR 0xC3, CHR 0xC4, CHR 0xC5, CHR 0xC6, CHR 0xC7,
           CHR 0xC8, CHR 0xC9, CHR 0xCA, CHR 0xCB, CHR 0xCC, CHR 0xCD, CHR 0xCE, CHR 0xCF,
           CHR 0xD0, CHR 0xD1, CHR 0xD2, CHR 0xD3, CHR 0xD4, CHR 0xD5, CHR 0xD6, CHR 0xD8,
           CHR 0xD9, CHR 0xDA, CHR 0xDB, CHR 0xDC, CHR 0xDD, CHR 0xDE])
                 (''abcdefghijklmnopqrstuvwxyz'' @
          [CHR 0xE0, CHR 0xE1, CHR 0xE2, CHR 0xE3, CHR 0xE4, CHR 0xE5, CHR 0xE6, CHR 0xE7,
           CHR 0xE8, CHR 0xE9, CHR 0xEA, CHR 0xEB, CHR 0xEC, CHR 0xED, CHR 0xEE, CHR 0xEF,
           CHR 0xF0, CHR 0xF1, CHR 0xF2, CHR 0xF3, CHR 0xF4, CHR 0xF5, CHR 0xF6, CHR 0xF8,
           CHR 0xF9, CHR 0xFA, CHR 0xFB, CHR 0xFC, CHR 0xFD, CHR 0xFE]))
          \<or> (q, p) \<in> set (zip (''ABCDEFGHIJKLMNOPQRSTUVWXYZ'' @
          [CHR 0xC0, CHR 0xC1, CHR 0xC2, CHR 0xC3, CHR 0xC4, CHR 0xC5, CHR 0xC6, CHR 0xC7,
           CHR 0xC8, CHR 0xC9, CHR 0xCA, CHR 0xCB, CHR 0xCC, CHR 0xCD, CHR 0xCE, CHR 0xCF,
           CHR 0xD0, CHR 0xD1, CHR 0xD2, CHR 0xD3, CHR 0xD4, CHR 0xD5, CHR 0xD6, CHR 0xD8,
           CHR 0xD9, CHR 0xDA, CHR 0xDB, CHR 0xDC, CHR 0xDD, CHR 0xDE])
                 (''abcdefghijklmnopqrstuvwxyz'' @
          [CHR 0xE0, CHR 0xE1, CHR 0xE2, CHR 0xE3, CHR 0xE4, CHR 0xE5, CHR 0xE6, CHR 0xE7,
           CHR 0xE8, CHR 0xE9, CHR 0xEA, CHR 0xEB, CHR 0xEC, CHR 0xED, CHR 0xEE, CHR 0xEF,
           CHR 0xF0, CHR 0xF1, CHR 0xF2, CHR 0xF3, CHR 0xF4, CHR 0xF5, CHR 0xF6, CHR 0xF8,
           CHR 0xF9, CHR 0xFA, CHR 0xFB, CHR 0xFC, CHR 0xFD, CHR 0xFE]))) e e'"
  shows "toLowerCase e = toLowerCase e'"
  using assms unfolding toLowerCase_def
proof (induction rule: list_all2_induct)
  case Nil
  then show ?case by simp
next
  case (Cons p ps q qs)
  have "toLowerChar p = toLowerChar q"
    using Cons.hyps(1) toLowerChar_pair [of p q] toLowerChar_pair [of q p] by metis
  with Cons.IH show ?case by simp
qed

lemma trim_surrounded:
  assumes "\<forall>c \<in> set ws1. isSpace c" and "\<forall>c \<in> set ws2. isSpace c"
  shows "trim (ws1 @ t @ ws2) = trim t"
proof -
  have d1: "dropWhile isSpace (ws1 @ t @ ws2) = dropWhile isSpace (t @ ws2)"
    using assms(1) by (simp add: dropWhile_append2)
  show ?thesis
  proof (cases "\<forall>c \<in> set t. isSpace c")
    case True
    then have "dropWhile isSpace (t @ ws2) = []" and e2: "dropWhile isSpace t = []"
      using assms(2) by auto
    with d1 have e1: "dropWhile isSpace (ws1 @ t @ ws2) = []" by (simp only:)
    show ?thesis unfolding trim_def e1 e2 by (rule refl)
  next
    case False
    then obtain c where "c \<in> set t" "\<not> isSpace c" by blast
    then have "dropWhile isSpace (t @ ws2) = dropWhile isSpace t @ ws2"
      by (simp add: dropWhile_append1)
    then have "rev (dropWhile isSpace (ws1 @ t @ ws2)) = rev ws2 @ rev (dropWhile isSpace t)"
      using d1 by simp
    moreover have "dropWhile isSpace (rev ws2 @ rev (dropWhile isSpace t))
                   = dropWhile isSpace (rev (dropWhile isSpace t))"
      using assms(2) by (intro dropWhile_append2) simp
    ultimately have "dropWhile isSpace (rev (dropWhile isSpace (ws1 @ t @ ws2)))
                     = dropWhile isSpace (rev (dropWhile isSpace t))"
      by (simp only:)
    then show ?thesis unfolding trim_def by (simp only:)
  qed
qed

lemma normalize_surrounded:
  assumes "set ws1 \<union> set ws2 \<subseteq> set [CHR 0x09, CHR 0x0A, CHR 0x0B, CHR 0x0C, CHR 0x0D, CHR '' '', CHR 0xA0]"
  shows "trim (toLowerCase (ws1 @ e @ ws2)) = trim (toLowerCase e)"
proof -
  have "\<forall>c \<in> set ws1. isSpace c" "\<forall>c \<in> set ws2. isSpace c"
    using assms unfolding isSpace_def by blast+
  then have "trim (ws1 @ e @ ws2) = trim e" by (rule trim_surrounded)
  then show ?thesis by (simp add: trim_toLowerCase)
qed

lemma deduplicateSubscribers_emails:
  "email ` set (deduplicateSubscribers x) = (\<lambda>s. trim (toLowerCase (email s))) ` set x"
  by (simp add: deduplicateSubscribers_dedupFrom dedupFrom_emails)

lemma deduplicateSubscribers_one:
  assumes "a \<in> set x"
  shows "length (filter (\<lambda>s. email s = trim (toLowerCase (email a)))
           (deduplicateSubscribers x)) = 1"
proof -
  from assms have "trim (toLowerCase (email a)) \<in> email ` set (dedupFrom {} x)"
    by (simp add: dedupFrom_emails)
  with dedupFrom_distinct [of "{}" x] show ?thesis
    unfolding deduplicateSubscribers_dedupFrom by (rule distinct_filter_one)
qed

lemma deduplicateSubscribers_twice:
  "deduplicateSubscribers (deduplicateSubscribers x) = deduplicateSubscribers x"
proof -
  let ?d = "dedupFrom {} x"
  have norm: "\<forall>y \<in> set ?d. trim (toLowerCase (email y)) = email y"
    using dedupFrom_normalized by blast
  have dist: "distinct (map email ?d)" by (rule dedupFrom_distinct)
  have "dedupFrom {} ?d = ?d"
    using norm dist by (intro dedupFrom_fixed) simp_all
  then show ?thesis by (simp add: deduplicateSubscribers_dedupFrom)
qed

text \<open>
  C6. Deduplicating twice gives what deduplicating once gives. The emails of the output
  are the lower-cased, trimmed emails of the input, each once. Lower-casing replaces each
  capital letter of Latin-1 by its small letter and leaves the other characters as they
  are, and trimming drops the white space at both ends. So two subscribers of the list
  whose emails differ only in the case of letters and in white space around them leave
  exactly one entry in the output between them, the one carrying their common normalised
  email.
\<close>

theorem deduplicateSubscribers_idempotent:
  "deduplicateSubscribers (deduplicateSubscribers x) = deduplicateSubscribers x
   \<and> distinct (map email (deduplicateSubscribers x))
   \<and> email ` set (deduplicateSubscribers x) = (\<lambda>s. trim (toLowerCase (email s))) ` set x
   \<and> (a \<in> set x \<and> b \<in> set x \<and> trim (toLowerCase (email a)) = trim (toLowerCase (email b))
        \<longrightarrow> length (filter (\<lambda>s. email s = trim (toLowerCase (email a)))
                     (deduplicateSubscribers x)) = 1)
   \<and> (a \<in> set x \<and> b \<in> set x \<and> email b = ws1 @ e @ ws2
        \<and> set ws1 \<union> set ws2 \<subseteq> set [CHR 0x09, CHR 0x0A, CHR 0x0B, CHR 0x0C, CHR 0x0D, CHR '' '', CHR 0xA0]
        \<and> list_all2 (\<lambda>p q. p = q
          \<or> (p, q) \<in> set (zip (''ABCDEFGHIJKLMNOPQRSTUVWXYZ'' @
          [CHR 0xC0, CHR 0xC1, CHR 0xC2, CHR 0xC3, CHR 0xC4, CHR 0xC5, CHR 0xC6, CHR 0xC7,
           CHR 0xC8, CHR 0xC9, CHR 0xCA, CHR 0xCB, CHR 0xCC, CHR 0xCD, CHR 0xCE, CHR 0xCF,
           CHR 0xD0, CHR 0xD1, CHR 0xD2, CHR 0xD3, CHR 0xD4, CHR 0xD5, CHR 0xD6, CHR 0xD8,
           CHR 0xD9, CHR 0xDA, CHR 0xDB, CHR 0xDC, CHR 0xDD, CHR 0xDE])
                 (''abcdefghijklmnopqrstuvwxyz'' @
          [CHR 0xE0, CHR 0xE1, CHR 0xE2, CHR 0xE3, CHR 0xE4, CHR 0xE5, CHR 0xE6, CHR 0xE7,
           CHR 0xE8, CHR 0xE9, CHR 0xEA, CHR 0xEB, CHR 0xEC, CHR 0xED, CHR 0xEE, CHR 0xEF,
           CHR 0xF0, CHR 0xF1, CHR 0xF2, CHR 0xF3, CHR 0xF4, CHR 0xF5, CHR 0xF6, CHR 0xF8,
           CHR 0xF9, CHR 0xFA, CHR 0xFB, CHR 0xFC, CHR 0xFD, CHR 0xFE]))
          \<or> (q, p) \<in> set (zip (''ABCDEFGHIJKLMNOPQRSTUVWXYZ'' @
          [CHR 0xC0, CHR 0xC1, CHR 0xC2, CHR 0xC3, CHR 0xC4, CHR 0xC5, CHR 0xC6, CHR 0xC7,
           CHR 0xC8, CHR 0xC9, CHR 0xCA, CHR 0xCB, CHR 0xCC, CHR 0xCD, CHR 0xCE, CHR 0xCF,
           CHR 0xD0, CHR 0xD1, CHR 0xD2, CHR 0xD3, CHR 0xD4, CHR 0xD5, CHR 0xD6, CHR 0xD8,
           CHR 0xD9, CHR 0xDA, CHR 0xDB, CHR 0xDC, CHR 0xDD, CHR 0xDE])
                 (''abcdefghijklmnopqrstuvwxyz'' @
          [CHR 0xE0, CHR 0xE1, CHR 0xE2, CHR 0xE3, CHR 0xE4, CHR 0xE5, CHR 0xE6, CHR 0xE7,
           CHR 0xE8, CHR 0xE9, CHR 0xEA, CHR 0xEB, CHR 0xEC, CHR 0xED, CHR 0xEE, CHR 0xEF,
           CHR 0xF0, CHR 0xF1, CHR 0xF2, CHR 0xF3, CHR 0xF4, CHR 0xF5, CHR 0xF6, CHR 0xF8,
           CHR 0xF9, CHR 0xFA, CHR 0xFB, CHR 0xFC, CHR 0xFD, CHR 0xFE]))) e (email a)
        \<longrightarrow> trim (toLowerCase (email b)) = trim (toLowerCase (email a))
            \<and> length (filter (\<lambda>s. email s = trim (toLowerCase (email a))
                                  \<or> email s = trim (toLowerCase (email b)))
                        (deduplicateSubscribers x)) = 1)
   \<and> (\<forall>s. toLowerCase s = map toLowerChar s)
   \<and> map toLowerChar (''ABCDEFGHIJKLMNOPQRSTUVWXYZ'' @
          [CHR 0xC0, CHR 0xC1, CHR 0xC2, CHR 0xC3, CHR 0xC4, CHR 0xC5, CHR 0xC6, CHR 0xC7,
           CHR 0xC8, CHR 0xC9, CHR 0xCA, CHR 0xCB, CHR 0xCC, CHR 0xCD, CHR 0xCE, CHR 0xCF,
           CHR 0xD0, CHR 0xD1, CHR 0xD2, CHR 0xD3, CHR 0xD4, CHR 0xD5, CHR 0xD6, CHR 0xD8,
           CHR 0xD9, CHR 0xDA, CHR 0xDB, CHR 0xDC, CHR 0xDD, CHR 0xDE])
       = (''abcdefghijklmnopqrstuvwxyz'' @
          [CHR 0xE0, CHR 0xE1, CHR 0xE2, CHR 0xE3, CHR 0xE4, CHR 0xE5, CHR 0xE6, CHR 0xE7,
           CHR 0xE8, CHR 0xE9, CHR 0xEA, CHR 0xEB, CHR 0xEC, CHR 0xED, CHR 0xEE, CHR 0xEF,
           CHR 0xF0, CHR 0xF1, CHR 0xF2, CHR 0xF3, CHR 0xF4, CHR 0xF5, CHR 0xF6, CHR 0xF8,
           CHR 0xF9, CHR 0xFA, CHR 0xFB, CHR 0xFC, CHR 0xFD, CHR 0xFE])
   \<and> (\<forall>c. c \<notin> set (''ABCDEFGHIJKLMNOPQRSTUVWXYZ'' @
          [CHR 0xC0, CHR 0xC1, CHR 0xC2, CHR 0xC3, CHR 0xC4, CHR 0xC5, CHR 0xC6, CHR 0xC7,
           CHR 0xC8, CHR 0xC9, CHR 0xCA, CHR 0xCB, CHR 0xCC, CHR 0xCD, CHR 0xCE, CHR 0xCF,
           CHR 0xD0, CHR 0xD1, CHR 0xD2, CHR 0xD3, CHR 0xD4, CHR 0xD5, CHR 0xD6, CHR 0xD8,
           CHR 0xD9, CHR 0xDA, CHR 0xDB, CHR 0xDC, CHR 0xDD, CHR 0xDE])
          \<longrightarrow> toLowerChar c = c)
   \<and> (\<forall>s. trim s = rev (dropWhile isSpace (rev (dropWhile isSpace s))))
   \<and> (\<forall>c. isSpace c = (c \<in> set [CHR 0x09, CHR 0x0A, CHR 0x0B, CHR 0x0C, CHR 0x0D, CHR '' '', CHR 0xA0]))"
proof -
  have one: "length (filter (\<lambda>s. email s = trim (toLowerCase (email a)))
                     (deduplicateSubscribers x)) = 1" if "a \<in> set x"
    using that by (rule deduplicateSubscribers_one)
  have two: "trim (toLowerCase (email b)) = trim (toLowerCase (email a))
            \<and> length (filter (\<lambda>s. email s = trim (toLowerCase (email a))
                                  \<or> email s = trim (toLowerCase (email b)))
                        (deduplicateSubscribers x)) = 1"
    if h: "a \<in> set x" "email b = ws1 @ e @ ws2"
      "set ws1 \<union> set ws2 \<subseteq> set [CHR 0x09, CHR 0x0A, CHR 0x0B, CHR 0x0C, CHR 0x0D, CHR '' '', CHR 0xA0]"
      "list_all2 (\<lambda>p q. p = q
          \<or> (p, q) \<in> set (zip (''ABCDEFGHIJKLMNOPQRSTUVWXYZ'' @
          [CHR 0xC0, CHR 0xC1, CHR 0xC2, CHR 0xC3, CHR 0xC4, CHR 0xC5, CHR 0xC6, CHR 0xC7,
           CHR 0xC8, CHR 0xC9, CHR 0xCA, CHR 0xCB, CHR 0xCC, CHR 0xCD, CHR 0xCE, CHR 0xCF,
           CHR 0xD0, CHR 0xD1, CHR 0xD2, CHR 0xD3, CHR 0xD4, CHR 0xD5, CHR 0xD6, CHR 0xD8,
           CHR 0xD9, CHR 0xDA, CHR 0xDB, CHR 0xDC, CHR 0xDD, CHR 0xDE])
                 (''abcdefghijklmnopqrstuvwxyz'' @
          [CHR 0xE0, CHR 0xE1, CHR 0xE2, CHR 0xE3, CHR 0xE4, CHR 0xE5, CHR 0xE6, CHR 0xE7,
           CHR 0xE8, CHR 0xE9, CHR 0xEA, CHR 0xEB, CHR 0xEC, CHR 0xED, CHR 0xEE, CHR 0xEF,
           CHR 0xF0, CHR 0xF1, CHR 0xF2, CHR 0xF3, CHR 0xF4, CHR 0xF5, CHR 0xF6, CHR 0xF8,
           CHR 0xF9, CHR 0xFA, CHR 0xFB, CHR 0xFC, CHR 0xFD, CHR 0xFE]))
          \<or> (q, p) \<in> set (zip (''ABCDEFGHIJKLMNOPQRSTUVWXYZ'' @
          [CHR 0xC0, CHR 0xC1, CHR 0xC2, CHR 0xC3, CHR 0xC4, CHR 0xC5, CHR 0xC6, CHR 0xC7,
           CHR 0xC8, CHR 0xC9, CHR 0xCA, CHR 0xCB, CHR 0xCC, CHR 0xCD, CHR 0xCE, CHR 0xCF,
           CHR 0xD0, CHR 0xD1, CHR 0xD2, CHR 0xD3, CHR 0xD4, CHR 0xD5, CHR 0xD6, CHR 0xD8,
           CHR 0xD9, CHR 0xDA, CHR 0xDB, CHR 0xDC, CHR 0xDD, CHR 0xDE])
                 (''abcdefghijklmnopqrstuvwxyz'' @
          [CHR 0xE0, CHR 0xE1, CHR 0xE2, CHR 0xE3, CHR 0xE4, CHR 0xE5, CHR 0xE6, CHR 0xE7,
           CHR 0xE8, CHR 0xE9, CHR 0xEA, CHR 0xEB, CHR 0xEC, CHR 0xED, CHR 0xEE, CHR 0xEF,
           CHR 0xF0, CHR 0xF1, CHR 0xF2, CHR 0xF3, CHR 0xF4, CHR 0xF5, CHR 0xF6, CHR 0xF8,
           CHR 0xF9, CHR 0xFA, CHR 0xFB, CHR 0xFC, CHR 0xFD, CHR 0xFE]))) e (email a)"
  proof -
    have "trim (toLowerCase (email b)) = trim (toLowerCase e)"
      unfolding h(2) using h(3) by (rule normalize_surrounded)
    also have "toLowerCase e = toLowerCase (email a)"
      using h(4) by (rule toLowerCase_case_pairs)
    finally have k: "trim (toLowerCase (email b)) = trim (toLowerCase (email a))" .
    show ?thesis
      unfolding k using one [OF h(1)] by simp
  qed
  have defs: "\<forall>s. toLowerCase s = map toLowerChar s"
    "\<forall>s. trim s = rev (dropWhile isSpace (rev (dropWhile isSpace s)))"
    "\<forall>c. isSpace c = (c \<in> set [CHR 0x09, CHR 0x0A, CHR 0x0B, CHR 0x0C, CHR 0x0D, CHR '' '', CHR 0xA0])"
    by (simp_all only: toLowerCase_def trim_def isSpace_def simp_thms)
  show ?thesis
    using deduplicateSubscribers_twice [of x] dedupFrom_distinct [of "{}" x]
      deduplicateSubscribers_emails [of x] one two defs toLowerChar_table toLowerChar_other
    unfolding deduplicateSubscribers_dedupFrom
    by blast
qed

theorem deduplicateSubscribers_idempotent_witness:
  "deduplicateSubscribers (deduplicateSubscribers
     [\<lparr>name = ''Eva'', email = CHR 0xC9 # ''va@Email.com'',
       subscribedAt = ''2025-01-15T10:00:00.000Z''\<rparr>,
      \<lparr>name = ''Eva S'', email = CHR 0xA0 # CHR 0xE9 # ''va@email.COM '',
       subscribedAt = ''2025-03-02T08:30:00.000Z''\<rparr>])
   = deduplicateSubscribers
     [\<lparr>name = ''Eva'', email = CHR 0xC9 # ''va@Email.com'',
       subscribedAt = ''2025-01-15T10:00:00.000Z''\<rparr>,
      \<lparr>name = ''Eva S'', email = CHR 0xA0 # CHR 0xE9 # ''va@email.COM '',
       subscribedAt = ''2025-03-02T08:30:00.000Z''\<rparr>]
   \<and> trim (toLowerCase (CHR 0xC9 # ''va@Email.com'')) = CHR 0xE9 # ''va@email.com''
   \<and> trim (toLowerCase (CHR 0xA0 # CHR 0xE9 # ''va@email.COM '')) = CHR 0xE9 # ''va@email.com''
   \<and> CHR 0xA0 # CHR 0xE9 # ''va@email.COM '' = [CHR 0xA0] @ (CHR 0xE9 # ''va@email.COM'') @ '' ''
   \<and> set [CHR 0xA0] \<union> set '' '' \<subseteq> set [CHR 0x09, CHR 0x0A, CHR 0x0B, CHR 0x0C, CHR 0x0D, CHR '' '', CHR 0xA0]
   \<and> list_all2 (\<lambda>p q. p = q
          \<or> (p, q) \<in> set (zip (''ABCDEFGHIJKLMNOPQRSTUVWXYZ'' @
          [CHR 0xC0, CHR 0xC1, CHR 0xC2, CHR 0xC3, CHR 0xC4, CHR 0xC5, CHR 0xC6, CHR 0xC7,
           CHR 0xC8, CHR 0xC9, CHR 0xCA, CHR 0xCB, CHR 0xCC, CHR 0xCD, CHR 0xCE, CHR 0xCF,
           CHR 0xD0, CHR 0xD1, CHR 0xD2, CHR 0xD3, CHR 0xD4, CHR 0xD5, CHR 0xD6, CHR 0xD8,
           CHR 0xD9, CHR 0xDA, CHR 0xDB, CHR 0xDC, CHR 0xDD, CHR 0xDE])
                 (''abcdefghijklmnopqrstuvwxyz'' @
          [CHR 0xE0, CHR 0xE1, CHR 0xE2, CHR 0xE3, CHR 0xE4, CHR 0xE5, CHR 0xE6, CHR 0xE7,
           CHR 0xE8, CHR 0xE9, CHR 0xEA, CHR 0xEB, CHR 0xEC, CHR 0xED, CHR 0xEE, CHR 0xEF,
           CHR 0xF0, CHR 0xF1, CHR 0xF2, CHR 0xF3, CHR 0xF4, CHR 0xF5, CHR 0xF6, CHR 0xF8,
           CHR 0xF9, CHR 0xFA, CHR 0xFB, CHR 0xFC, CHR 0xFD, CHR 0xFE]))
          \<or> (q, p) \<in> set (zip (''ABCDEFGHIJKLMNOPQRSTUVWXYZ'' @
          [CHR 0xC0, CHR 0xC1, CHR 0xC2, CHR 0xC3, CHR 0xC4, CHR 0xC5, CHR 0xC6, CHR 0xC7,
           CHR 0xC8, CHR 0xC9, CHR 0xCA, CHR 0xCB, CHR 0xCC, CHR 0xCD, CHR 0xCE, CHR 0xCF,
           CHR 0xD0, CHR 0xD1, CHR 0xD2, CHR 0xD3, CHR 0xD4, CHR 0xD5, CHR 0xD6, CHR 0xD8,
           CHR 0xD9, CHR 0xDA, CHR 0xDB, CHR 0xDC, CHR 0xDD, CHR 0xDE])
                 (''abcdefghijklmnopqrstuvwxyz'' @
          [CHR 0xE0, CHR 0xE1, CHR 0xE2, CHR 0xE3, CHR 0xE4, CHR 0xE5, CHR 0xE6, CHR 0xE7,
           CHR 0xE8, CHR 0xE9, CHR 0xEA, CHR 0xEB, CHR 0xEC, CHR 0xED, CHR 0xEE, CHR 0xEF,
           CHR 0xF0, CHR 0xF1, CHR 0xF2, CHR 0xF3, CHR 0xF4, CHR 0xF5, CHR 0xF6, CHR 0xF8,
           CHR 0xF9, CHR 0xFA, CHR 0xFB, CHR 0xFC, CHR 0xFD, CHR 0xFE]))) (CHR 0xE9 # ''va@email.COM'') (CHR 0xC9 # ''va@Email.com'')
   \<and> CHR ''7'' \<notin> set (''ABCDEFGHIJKLMNOPQRSTUVWXYZ'' @
          [CHR 0xC0, CHR 0xC1, CHR 0xC2, CHR 0xC3, CHR 0xC4, CHR 0xC5, CHR 0xC6, CHR 0xC7,
           CHR 0xC8, CHR 0xC9, CHR 0xCA, CHR 0xCB, CHR 0xCC, CHR 0xCD, CHR 0xCE, CHR 0xCF,
           CHR 0xD0, CHR 0xD1, CHR 0xD2, CHR 0xD3, CHR 0xD4, CHR 0xD5, CHR 0xD6, CHR 0xD8,
           CHR 0xD9, CHR 0xDA, CHR 0xDB, CHR 0xDC, CHR 0xDD, CHR 0xDE])
   \<and> length (filter (\<lambda>s. email s = CHR 0xE9 # ''va@email.com'')
        (deduplicateSubscribers
          [\<lparr>name = ''Eva'', email = CHR 0xC9 # ''va@Email.com'',
            subscribedAt = ''2025-01-15T10:00:00.000Z''\<rparr>,
           \<lparr>name = ''Eva S'', email = CHR 0xA0 # CHR 0xE9 # ''va@email.COM '',
            subscribedAt = ''2025-03-02T08:30:00.000Z''\<rparr>])) = 1
   \<and> map email (deduplicateSubscribers
          [\<lparr>name = ''Eva'', email = CHR 0xC9 # ''va@Email.com'',
            subscribedAt = ''2025-01-15T10:00:00.000Z''\<rparr>,
           \<lparr>name = ''Eva S'', email = CHR 0xA0 # CHR 0xE9 # ''va@email.COM '',
            subscribedAt = ''2025-03-02T08:30:00.000Z''\<rparr>]) = [CHR 0xE9 # ''va@email.com'']"
proof -
  let ?a = "\<lparr>name = ''Eva'', email = CHR 0xC9 # ''va@Email.com'',
             subscribedAt = ''2025-01-15T10:00:00.000Z''\<rparr>"
  let ?b = "\<lparr>name = ''Eva S'', email = CHR 0xA0 # CHR 0xE9 # ''va@email.COM '',
             subscribedAt = ''2025-03-02T08:30:00.000Z''\<rparr>"
  have n1: "trim (toLowerCase (CHR 0xC9 # ''va@Email.com'')) = CHR 0xE9 # ''va@email.com''"
    by (simp add: trim_def toLowerCase_def toLowerChar_def isSpace_def)
  have n2: "trim (toLowerCase (CHR 0xA0 # CHR 0xE9 # ''va@email.COM ''))
            = CHR 0xE9 # ''va@email.com''"
    by (simp add: trim_def toLowerCase_def toLowerChar_def isSpace_def)
  have sp: "set [CHR 0xA0] \<union> set '' '' \<subseteq> set [CHR 0x09, CHR 0x0A, CHR 0x0B, CHR 0x0C, CHR 0x0D, CHR '' '', CHR 0xA0]"
    by simp
  have pairs: "list_all2 (\<lambda>p q. p = q
          \<or> (p, q) \<in> set (zip (''ABCDEFGHIJKLMNOPQRSTUVWXYZ'' @
          [CHR 0xC0, CHR 0xC1, CHR 0xC2, CHR 0xC3, CHR 0xC4, CHR 0xC5, CHR 0xC6, CHR 0xC7,
           CHR 0xC8, CHR 0xC9, CHR 0xCA, CHR 0xCB, CHR 0xCC, CHR 0xCD, CHR 0xCE, CHR 0xCF,
           CHR 0xD0, CHR 0xD1, CHR 0xD2, CHR 0xD3, CHR 0xD4, CHR 0xD5, CHR 0xD6, CHR 0xD8,
           CHR 0xD9, CHR 0xDA, CHR 0xDB, CHR 0xDC, CHR 0xDD, CHR 0xDE])
                 (''abcdefghijklmnopqrstuvwxyz'' @
          [CHR 0xE0, CHR 0xE1, CHR 0xE2, CHR 0xE3, CHR 0xE4, CHR 0xE5, CHR 0xE6, CHR 0xE7,
           CHR 0xE8, CHR 0xE9, CHR 0xEA, CHR 0xEB, CHR 0xEC, CHR 0xED, CHR 0xEE, CHR 0xEF,
           CHR 0xF0, CHR 0xF1, CHR 0xF2, CHR 0xF3, CHR 0xF4, CHR 0xF5, CHR 0xF6, CHR 0xF8,
           CHR 0xF9, CHR 0xFA, CHR 0xFB, CHR 0xFC, CHR 0xFD, CHR 0xFE]))
          \<or> (q, p) \<in> set (zip (''ABCDEFGHIJKLMNOPQRSTUVWXYZ'' @
          [CHR 0xC0, CHR 0xC1, CHR 0xC2, CHR 0xC3, CHR 0xC4, CHR 0xC5, CHR 0xC6, CHR 0xC7,
           CHR 0xC8, CHR 0xC9, CHR 0xCA, CHR 0xCB, CHR 0xCC, CHR 0xCD, CHR 0xCE, CHR 0xCF,
           CHR 0xD0, CHR 0xD1, CHR 0xD2, CHR 0xD3, CHR 0xD4, CHR 0xD5, CHR 0xD6, CHR 0xD8,
           CHR 0xD9, CHR 0xDA, CHR 0xDB, CHR 0xDC, CHR 0xDD, CHR 0xDE])
                 (''abcdefghijklmnopqrstuvwxyz'' @
          [CHR 0xE0, CHR 0xE1, CHR 0xE2, CHR 0xE3, CHR 0xE4, CHR 0xE5, CHR 0xE6, CHR 0xE7,
           CHR 0xE8, CHR 0xE9, CHR 0xEA, CHR 0xEB, CHR 0xEC, CHR 0xED, CHR 0xEE, CHR 0xEF,
           CHR 0xF0, CHR 0xF1, CHR 0xF2, CHR 0xF3, CHR 0xF4, CHR 0xF5, CHR 0xF6, CHR 0xF8,
           CHR 0xF9, CHR 0xFA, CHR 0xFB, CHR 0xFC, CHR 0xFD, CHR 0xFE]))) (CHR 0xE9 # ''va@email.COM'') (CHR 0xC9 # ''va@Email.com'')"
    by simp
  have seven: "CHR ''7'' \<notin> set (''ABCDEFGHIJKLMNOPQRSTUVWXYZ'' @
          [CHR 0xC0, CHR 0xC1, CHR 0xC2, CHR 0xC3, CHR 0xC4, CHR 0xC5, CHR 0xC6, CHR 0xC7,
           CHR 0xC8, CHR 0xC9, CHR 0xCA, CHR 0xCB, CHR 0xCC, CHR 0xCD, CHR 0xCE, CHR 0xCF,
           CHR 0xD0, CHR 0xD1, CHR 0xD2, CHR 0xD3, CHR 0xD4, CHR 0xD5, CHR 0xD6, CHR 0xD8,
           CHR 0xD9, CHR 0xDA, CHR 0xDB, CHR 0xDC, CHR 0xDD, CHR 0xDE])"
    by simp
  have split: "email ?b = [CHR 0xA0] @ (CHR 0xE9 # ''va@email.COM'') @ '' ''"
    by simp
  note main = deduplicateSubscribers_idempotent
      [of "[?a, ?b]" ?a ?b "[CHR 0xA0]" "CHR 0xE9 # ''va@email.COM''" "'' ''"]
  have idem: "deduplicateSubscribers (deduplicateSubscribers [?a, ?b])
              = deduplicateSubscribers [?a, ?b]"
    using main by (rule conjunct1)
  have ea: "email ?a = CHR 0xC9 # ''va@Email.com''" by simp
  have mem: "?a \<in> set [?a, ?b]" "?b \<in> set [?a, ?b]" by simp_all
  have "length (filter (\<lambda>s. email s = trim (toLowerCase (email ?a))
                            \<or> email s = trim (toLowerCase (email ?b)))
                  (deduplicateSubscribers [?a, ?b])) = 1"
    using main mem split sp pairs unfolding ea by blast
  then have one: "length (filter (\<lambda>s. email s = CHR 0xE9 # ''va@email.com'')
                  (deduplicateSubscribers [?a, ?b])) = 1"
    by (simp add: n1 n2)
  have out: "map email (deduplicateSubscribers [?a, ?b]) = [CHR 0xE9 # ''va@email.com'']"
    by (simp add: deduplicateSubscribers_def n1 n2)
  show ?thesis
    using idem n1 n2 sp pairs seven one out by simp
qed

text \<open>
  C7. The entry kept for an email key is the first one met in list order, whatever its
  timestamp. On a list whose first entry for a key is the later subscription, the output
  keeps that later subscription and drops the earlier one.
\<close>

theorem deduplicateSubscribers_keeps_first_seen:
  "deduplicateSubscribers
     [\<lparr>name = ''Ann'', email = ''ann@example.com'', subscribedAt = ''2025-02-01T09:00:00.000Z''\<rparr>,
      \<lparr>name = ''Ann'', email = ''Ann@Example.com'', subscribedAt = ''2025-01-01T09:00:00.000Z''\<rparr>]
   = [\<lparr>name = ''Ann'', email = ''ann@example.com'', subscribedAt = ''2025-02-01T09:00:00.000Z''\<rparr>]
   \<and> ''2025-01-01T09:00:00.000Z'' < ''2025-02-01T09:00:00.000Z''"
proof -
  have n1: "trim (toLowerCase ''ann@example.com'') = ''ann@example.com''"
    by (simp add: trim_def toLowerCase_def toLowerChar_def isSpace_def)
  have n2: "trim (toLowerCase ''Ann@Example.com'') = ''ann@example.com''"
    by (simp add: trim_def toLowerCase_def toLowerChar_def isSpace_def)
  have lt: "''2025-01-01T09:00:00.000Z'' < ''2025-02-01T09:00:00.000Z''"
    by (simp add: less_char_def)
  show ?thesis
    by (simp add: deduplicateSubscribers_def n1 n2 lt)
qed

section \<open>Batches and delays of the sender\<close>


























lemma sender_main_empty_list:
  "contentLoaded env \<Longrightarrow> templateLoaded env \<Longrightarrow> \<not> isPreview env \<Longrightarrow> resendApiKeySet env \<Longrightarrow>
   testEmail env = None \<Longrightarrow> fetchedSubscribers env = [] \<Longrightarrow> sender_main env world = NoSubscribers"
  by (simp add: sender_main_def)

section \<open>Channels of the live alert notifier\<close>

lemma alertEmailLoop_no_other:
  "NtfyPost \<notin> set (fst (alertEmailLoop w es)) \<and> TelegramPost \<notin> set (fst (alertEmailLoop w es))"
  by (induction es) (auto split: prod.splits)

lemma alertEmailLoop_recipients:
  "[e. EmailPost e \<leftarrow> fst (alertEmailLoop w es)] = es"
  by (induction es) (auto split: prod.splits)

lemma sendAlertEmail_events:
  "fst (sendAlertEmail cfg w)
   = (if apiKey cfg = '''' \<or> alertSubscribers cfg = [] then []
      else fst (alertEmailLoop w (alertSubscribers cfg)))"
  by (simp add: sendAlertEmail_def split: prod.splits)

lemma sendTelegram_events:
  "fst (sendTelegram cfg w)
   = (if botToken cfg = '''' \<or> channelId cfg = '''' then [] else [TelegramPost])"
  by (simp add: sendTelegram_def)

lemma alert_main_events:
  "snd (alert_main args cfg w)
   = (if ''--test'' \<in> set args \<or> platformOf args = Some ''all'' \<or> platformOf args = Some ''ntfy''
      then [NtfyPost] else [])
     @ (if ''--test'' \<notin> set args
           \<and> (platformOf args = Some ''all'' \<or> platformOf args = Some ''telegram'')
        then fst (sendTelegram cfg w) else [])
     @ (if ''--test'' \<notin> set args
           \<and> (platformOf args = Some ''all'' \<or> platformOf args = Some ''email'')
        then fst (sendAlertEmail cfg w) else [])"
  by (simp add: alert_main_def Let_def sendNtfy_def split: prod.splits)

lemma alert_main_telegram_skipped:
  "''--test'' \<notin> set args \<Longrightarrow> platformOf args = Some ''telegram'' \<Longrightarrow> botToken cfg = '''' \<Longrightarrow>
   alert_main args cfg w = (\<lparr>ntfy = None, telegram = Some False, email_channel = None\<rparr>, [])"
  by (simp add: alert_main_def Let_def sendTelegram_def)

lemma alert_main_ntfy_post:
  "NtfyPost \<in> set (snd (alert_main args cfg w))
   \<longleftrightarrow> ''--test'' \<in> set args \<or> platformOf args = Some ''all'' \<or> platformOf args = Some ''ntfy''"
  using alertEmailLoop_no_other [of w "alertSubscribers cfg"]
  by (auto simp: alert_main_events sendTelegram_events sendAlertEmail_events split: if_splits)

lemma alert_main_telegram_post:
  "TelegramPost \<in> set (snd (alert_main args cfg w))
   \<longleftrightarrow> ''--test'' \<notin> set args
       \<and> (platformOf args = Some ''all'' \<or> platformOf args = Some ''telegram'')
       \<and> botToken cfg \<noteq> '''' \<and> channelId cfg \<noteq> ''''"
  using alertEmailLoop_no_other [of w "alertSubscribers cfg"]
  by (auto simp: alert_main_events sendTelegram_events sendAlertEmail_events split: if_splits)

lemma alert_main_email_posts:
  "[e. EmailPost e \<leftarrow> snd (alert_main args cfg w)]
   = (if ''--test'' \<notin> set args
         \<and> (platformOf args = Some ''all'' \<or> platformOf args = Some ''email'')
         \<and> apiKey cfg \<noteq> ''''
      then alertSubscribers cfg else [])"
  by (simp add: alert_main_events sendTelegram_events sendAlertEmail_events
      alertEmailLoop_recipients)

text \<open>
  C8. Invoked with \<^verbatim>\<open>--platform telegram\<close>, without \<^verbatim>\<open>--test\<close> and with no
  bot token, the notifier makes no request at all and its results object is
  \<^verbatim>\<open>{telegram: false}\<close>. In general, whatever the three services answer: a request
  goes to ntfy exactly when \<^verbatim>\<open>--test\<close> is given or the platform is all or ntfy; to
  Telegram exactly when \<^verbatim>\<open>--test\<close> is not given, the platform is all or telegram and
  both the bot token and the channel id are set; to the mail API exactly when
  \<^verbatim>\<open>--test\<close> is not given, the platform is all or email and the API key is set, and
  then once to each recipient of the list, in order.
\<close>

theorem alert_main_channels:
  "(''--test'' \<notin> set args \<and> platformOf args = Some ''telegram'' \<and> botToken cfg = ''''
      \<longrightarrow> alert_main args cfg w
           = (\<lparr>ntfy = None, telegram = Some False, email_channel = None\<rparr>, []))
   \<and> (NtfyPost \<in> set (snd (alert_main args cfg w))
        \<longleftrightarrow> ''--test'' \<in> set args \<or> platformOf args = Some ''all''
            \<or> platformOf args = Some ''ntfy'')
   \<and> (TelegramPost \<in> set (snd (alert_main args cfg w))
        \<longleftrightarrow> ''--test'' \<notin> set args
            \<and> (platformOf args = Some ''all'' \<or> platformOf args = Some ''telegram'')
            \<and> botToken cfg \<noteq> '''' \<and> channelId cfg \<noteq> '''')
   \<and> [e. EmailPost e \<leftarrow> snd (alert_main args cfg w)]
       = (if ''--test'' \<notin> set args
             \<and> (platformOf args = Some ''all'' \<or> platformOf args = Some ''email'')
             \<and> apiKey cfg \<noteq> ''''
          then alertSubscribers cfg else [])"
  using alert_main_telegram_skipped [of args cfg w] alert_main_ntfy_post [of args cfg w]
    alert_main_telegram_post [of args cfg w] alert_main_email_posts [of args cfg w]
  by blast

theorem alert_main_channels_witness:
  "''--test'' \<notin> set [''--platform'', ''telegram'']
   \<and> platformOf [''--platform'', ''telegram''] = Some ''telegram''
   \<and> botToken (alertConfig '''' '''' ''re_123'') = ''''
   \<and> alert_main [''--platform'', ''telegram''] (alertConfig '''' '''' ''re_123'')
         \<lparr>ntfyResponse = OkBody, telegramResponse = OkBody, emailResponse = (\<lambda>e. OkBody)\<rparr>
       = (\<lparr>ntfy = None, telegram = Some False, email_channel = None\<rparr>, [])"
proof -
  have p: "platformOf [''--platform'', ''telegram''] = Some ''telegram''"
    by (simp add: platformOf_def argAfter_def)
  have t: "''--test'' \<notin> set [''--platform'', ''telegram'']" by simp
  have b: "botToken (alertConfig '''' '''' ''re_123'') = ''''" by (simp add: alertConfig_def)
  show ?thesis
    using alert_main_channels
      [of "[''--platform'', ''telegram'']" "alertConfig '''' '''' ''re_123''"
          "\<lparr>ntfyResponse = OkBody, telegramResponse = OkBody, emailResponse = (\<lambda>e. OkBody)\<rparr>"]
      p t b
    by blast
qed

text \<open>
  With \<^verbatim>\<open>--test --platform telegram\<close> the platform filter selects Telegram only, and
  the one request of the run goes to ntfy.
\<close>

theorem alert_main_test_mode_counterexample:
  "platformOf [''--test'', ''--platform'', ''telegram''] = Some ''telegram''
   \<and> snd (alert_main [''--test'', ''--platform'', ''telegram'']
         (alertConfig ''123:abc'' ''@ifm'' ''re_123'')
         \<lparr>ntfyResponse = OkBody, telegramResponse = OkBody, emailResponse = (\<lambda>e. OkBody)\<rparr>)
       = [NtfyPost]"
proof -
  have p: "platformOf [''--test'', ''--platform'', ''telegram''] = Some ''telegram''"
    by (simp add: platformOf_def argAfter_def)
  show ?thesis
    by (simp add: p alert_main_events)
qed

section \<open>The signup handler and the welcome email\<close>

lemma isValidEmail_ann: "isValidEmail (Str ''ann@example.com'')"
  by (simp add: isValidEmail_def matchesEmailRegex_def plainChar_def isSpace_def trim_def)

lemma handler_invalid_email:
  "httpMethod event = ''POST'' \<Longrightarrow> body event = Body emailValue nameValue \<Longrightarrow>
   \<not> isValidEmail emailValue \<Longrightarrow>
   handler event keySet api
   = (\<lparr>statusCode = 400, success = Some False, emailSent = None\<rparr>, [])"
  by (simp add: handler_def)

lemma handler_welcome_skipped_or_refused:
  "httpMethod event = ''POST'' \<Longrightarrow> body event = Body emailValue nameValue \<Longrightarrow>
   isValidEmail emailValue \<Longrightarrow> \<not> keySet \<or> api = NotOk status \<Longrightarrow>
   fst (handler event keySet api)
   = \<lparr>statusCode = 200, success = Some True, emailSent = Some False\<rparr>"
  by (cases emailValue) (auto simp: handler_def sendWelcomeEmail_def isValidEmail_def)

text \<open>
  C10. A POST with a valid email, the API key set, and a \<^verbatim>\<open>fetch\<close> of the mail API that
  is rejected (the network is down): \<^verbatim>\<open>sendWelcomeEmail\<close> throws, the handler's
  \<^verbatim>\<open>catch\<close> answers 500 with \<^verbatim>\<open>success: false\<close>, and the signup request fails on a
  failure of the welcome email.
\<close>

theorem handler_fails_when_welcome_fetch_rejected:
  "isValidEmail (Str ''ann@example.com'')
   \<and> handler \<lparr>httpMethod = ''POST'', body = Body (Str ''ann@example.com'') (Str ''Ann'')\<rparr>
         True FetchRejected
       = (\<lparr>statusCode = 500, success = Some False, emailSent = None\<rparr>, [''ann@example.com''])"
proof -
  have t: "trim ''ann@example.com'' = ''ann@example.com''"
    by (simp add: trim_def isSpace_def)
  show ?thesis
    by (simp add: isValidEmail_ann handler_def sendWelcomeEmail_def t)
qed

end
